theory Spec2Isabelle
  imports Complex_Main "HOL-Library.Sublist"
begin

section \<open>Go strings\<close>

text \<open>
  A Go string is a sequence of bytes; it is modelled as \<open>string\<close> (a list of 8-bit
  characters).  The functions below are the ones of package \<open>strings\<close> that the
  repository calls and that work on bytes.

  \<open>strings.ToLower\<close> works on Unicode: it decodes the string as UTF-8, maps every
  letter to its lower case with the tables of package \<open>unicode\<close> (a letter may change
  its number of bytes) and writes U+FFFD for a byte that is no UTF-8.  It is a parameter
  of the model, of type \<open>to_lower\<close>; every function that calls it takes it as its
  argument \<open>toLower\<close> or from its library record.
\<close>

type_synonym to_lower = "string \<Rightarrow> string"

text \<open>
  On a string of ASCII bytes \<open>strings.ToLower\<close> maps byte by byte, \<open>A..Z\<close> to
  \<open>a..z\<close>.  \<open>ToLower_ascii\<close> is that mapping, applied to every byte; it is the
  lower-casing of the sample libraries, whose strings are ASCII.
\<close>

definition lower_byte :: "char \<Rightarrow> char" where
  "lower_byte c =
     (if 65 \<le> (of_char c :: nat) \<and> (of_char c :: nat) \<le> 90
      then char_of ((of_char c :: nat) + 32) else c)"

definition ToLower_ascii :: to_lower where
  "ToLower_ascii s = map lower_byte s"

text \<open>
  What the proofs take for granted of \<open>strings.ToLower\<close>.  A byte is plain when it
  is ASCII and no upper-case letter.  \<open>keeps_ascii\<close>: the empty string stays empty, and
  a tail of plain bytes stays as it is whatever stands before it (a plain byte is a
  character of its own in every UTF-8 context, and its lower case is itself).
\<close>

definition plain_byte :: "char \<Rightarrow> bool" where
  "plain_byte c = ((of_char c :: nat) < 128 \<and> \<not> (65 \<le> (of_char c :: nat) \<and> (of_char c :: nat) \<le> 90))"

definition keeps_ascii :: "to_lower \<Rightarrow> bool" where
  "keeps_ascii toLower =
     (toLower [] = [] \<and> (\<forall>a b. list_all plain_byte b \<longrightarrow> toLower (a @ b) = toLower a @ b))"

definition HasPrefix :: "string \<Rightarrow> string \<Rightarrow> bool" where
  "HasPrefix s p = prefix p s"

definition HasSuffix :: "string \<Rightarrow> string \<Rightarrow> bool" where
  "HasSuffix s p = suffix p s"

definition TrimPrefix :: "string \<Rightarrow> string \<Rightarrow> string" where
  "TrimPrefix s p = (if HasPrefix s p then drop (length p) s else s)"

definition TrimSuffix :: "string \<Rightarrow> string \<Rightarrow> string" where
  "TrimSuffix s p = (if HasSuffix s p then take (length s - length p) s else s)"

text \<open>\<open>Index s sub\<close> is the position of the first occurrence of \<open>sub\<close> in \<open>s\<close>, or \<open>-1\<close>.\<close>

primrec Index :: "string \<Rightarrow> string \<Rightarrow> int" where
  "Index [] sub = (if sub = [] then 0 else - 1)"
| "Index (c # t) sub =
     (if prefix sub (c # t) then 0
      else (let i = Index t sub in if i < 0 then - 1 else i + 1))"

definition Contains :: "string \<Rightarrow> string \<Rightarrow> bool" where
  "Contains s sub = (Index s sub \<ge> 0)"

text \<open>
  An \<open>error\<close> value carries its message; a nil error is \<open>None\<close> of \<open>error option\<close>.
  A call that panics does not return: where that can happen, \<open>Panic\<close> stands in the
  place of the result.  No collaborator returns \<open>Panic\<close> as its error.
\<close>

datatype error = Error string | Panic string

fun message :: "error \<Rightarrow> string" where
  "message (Error msg) = msg"
| "message (Panic msg) = msg"

section \<open>The domain rate limiter (package cache)\<close>

text \<open>
  \<open>net/url\<close> belongs to the Go standard library, not to the repository: \<open>url.Parse\<close> is
  a parameter of the model.  It returns the error or the parsed URL, of which the
  scheme, the host (the authority without the user information) and the path are kept.
\<close>

record URL =
  Scheme :: string
  Host :: string
  Path :: string

type_synonym url_parser = "string \<Rightarrow> error + URL"

definition extractDomain :: "url_parser \<Rightarrow> string \<Rightarrow> string" where
  "extractDomain parse rawURL = (case parse rawURL of Inl err \<Rightarrow> [] | Inr u \<Rightarrow> Host u)"

text \<open>
  The limiter's two \<open>sync.Map\<close>s: \<open>lastRequest\<close> maps a domain to the time of its last
  request, \<open>mu\<close> holds a mutex for every domain in its domain set.  Times are readings
  of the monotonic clock in nanoseconds, durations are differences of them.
\<close>

record DomainRateLimiter =
  lastRequest :: "string \<rightharpoonup> int"
  mu :: "string set"
  minDelay :: int

definition NewDomainRateLimiter :: "int \<Rightarrow> DomainRateLimiter" where
  "NewDomainRateLimiter d = \<lparr>lastRequest = Map.empty, mu = {}, minDelay = d\<rparr>"

text \<open>
  What a call of \<open>Wait\<close> does is recorded in a trace: the argument of every
  \<open>time.Sleep\<close> and every \<open>lastRequest.Store\<close>.  The world of the limiter is the
  limiter itself, the clock and the trace so far.
\<close>

datatype event = Sleep int | Store string int

record world =
  limiter :: DomainRateLimiter
  clock :: int
  trace :: "event list"

text \<open>
  The scheduler decides how much time passes around the statements of \<open>Wait\<close>; none of
  these amounts is negative.  \<open>arrive\<close> is the time until the caller holds the domain's
  mutex and reads the clock in \<open>time.Since\<close>, \<open>oversleep\<close> is what \<open>time.Sleep\<close> pauses
  beyond its argument (it pauses for at least its argument), \<open>lag\<close> is the time between
  that and the clock reading of \<open>time.Now\<close>.
\<close>

record call =
  url :: string
  arrive :: nat
  oversleep :: nat
  lag :: nat

text \<open>
  \<open>Wait\<close>, for callers that hold the mutex of their domain one after the other: the
  critical section between \<open>mu.Lock\<close> and \<open>mu.Unlock\<close> is one step of the model.
  The two type assertions of the source cannot fail, since \<open>mu\<close> holds mutexes only
  and \<open>lastRequest\<close> times only; their failure branches are left out.  A
  \<open>time.Duration\<close> is a number of nanoseconds in 64 bits; the model takes integers
  and so leaves aside intervals of more than 292 years.
\<close>

definition Wait :: "url_parser \<Rightarrow> call \<Rightarrow> world \<Rightarrow> world" where
  "Wait parse c w =
     (let domain = extractDomain parse (url c) in
      if domain = [] then w
      else
        let r = limiter w;
            r1 = r\<lparr>mu := insert domain (mu r)\<rparr>;
            t1 = clock w + int (arrive c);
            (t2, tr) =
              (case lastRequest r1 domain of
                 None \<Rightarrow> (t1, trace w)
               | Some prev \<Rightarrow>
                   (let elapsed = t1 - prev in
                    if elapsed < minDelay r1
                    then (t1 + (minDelay r1 - elapsed) + int (oversleep c),
                          trace w @ [Sleep (minDelay r1 - elapsed)])
                    else (t1, trace w)));
            t3 = t2 + int (lag c)
        in \<lparr>limiter = r1\<lparr>lastRequest := (lastRequest r1)(domain \<mapsto> t3)\<rparr>,
            clock = t3,
            trace = tr @ [Store domain t3]\<rparr>)"

fun run :: "url_parser \<Rightarrow> world \<Rightarrow> call list \<Rightarrow> world" where
  "run parse w [] = w"
| "run parse w (c # cs) = run parse (Wait parse c w) cs"

definition start :: "int \<Rightarrow> int \<Rightarrow> world" where
  "start d t0 = \<lparr>limiter = NewDomainRateLimiter d, clock = t0, trace = []\<rparr>"

text \<open>The request times stored for one domain, in the order of the stores.\<close>

fun stored :: "string \<Rightarrow> event list \<Rightarrow> int list" where
  "stored h [] = []"
| "stored h (Sleep d # es) = stored h es"
| "stored h (Store h' t # es) = (if h' = h then t # stored h es else stored h es)"

text \<open>Consecutive times are at least \<open>d\<close> apart.\<close>

fun spaced :: "int \<Rightarrow> int list \<Rightarrow> bool" where
  "spaced d [] = True"
| "spaced d [t] = True"
| "spaced d (t # t' # ts) = (t + d \<le> t' \<and> spaced d (t' # ts))"

section \<open>Shared types (packages profile and cache)\<close>

text \<open>\<open>Itoa\<close> is \<open>strconv.Itoa\<close>: the decimal digits of an integer.\<close>

definition digit_char :: "nat \<Rightarrow> char" where
  "digit_char n = char_of (48 + n)"

function digits :: "nat \<Rightarrow> string" where
  "digits n = (if n < 10 then [digit_char n] else digits (n div 10) @ [digit_char (n mod 10)])"
  by pat_completeness auto
termination
  by (relation "measure id") auto

definition Itoa :: "int \<Rightarrow> string" where
  "Itoa i = (if i < 0 then CHR ''-'' # digits (nat (- i)) else digits (nat i))"

text \<open>
  \<open>profile.Profile\<close>.  \<open>Posts\<close> and \<open>LastActive\<close> are the two fields that only the
  generic package writes; a post is its type, its title and its URL.
\<close>

type_synonym Post = "string \<times> string \<times> string"

record Profile =
  Platform :: string
  URL :: string
  Authenticated :: bool
  Username :: string
  Name :: string
  Bio :: string
  Location :: string
  Website :: string
  Fields :: "string \<rightharpoonup> string"
  SocialLinks :: "string list"
  Unstructured :: string
  IsGuess :: bool
  Confidence :: real
  GuessMatch :: "string list"
  Posts :: "Post list"
  LastActive :: string

text \<open>The zero value of the struct, which a composite literal fills in.\<close>

definition zeroProfile :: Profile where
  "zeroProfile =
     \<lparr>Platform = [], URL = [], Authenticated = False, Username = [], Name = [], Bio = [],
      Location = [], Website = [], Fields = Map.empty, SocialLinks = [], Unstructured = [],
      IsGuess = False, Confidence = 0, GuessMatch = [], Posts = [], LastActive = []\<rparr>"

text \<open>
  \<open>cache.HTTPCache\<close>: \<open>Get\<close> returns the data, the etag, the headers and \<open>found\<close>;
  \<open>SetAsync\<close> takes the URL, the data, the etag and the headers and returns an error
  or nil (\<open>None\<close>).
\<close>

type_synonym headers = "(string \<times> string) list"

record HTTPCache =
  Get :: "string \<Rightarrow> string \<times> string \<times> headers \<times> bool"
  SetAsync :: "string \<Rightarrow> string \<Rightarrow> string \<Rightarrow> headers \<Rightarrow> error option"

text \<open>
  An \<open>http.Request\<close> is its URL and the headers set on it.  A response is its status
  code and its body: the bytes the body delivers and the error, if any, that ends it.
\<close>

record Request =
  reqURL :: string
  reqHeader :: headers

definition Header_Set :: "string \<Rightarrow> string \<Rightarrow> Request \<Rightarrow> Request" where
  "Header_Set k v req = req\<lparr>reqHeader := (k, v) # filter (\<lambda>(k', _). k' \<noteq> k) (reqHeader req)\<rparr>"

record Response =
  StatusCode :: int
  Body :: "string \<times> error option"

text \<open>\<open>io.ReadAll(io.LimitReader(body, n))\<close>: the limit hides whatever follows byte \<open>n\<close>.\<close>

definition ReadAllLimit :: "nat \<Rightarrow> string \<times> error option \<Rightarrow> error + string" where
  "ReadAllLimit n body =
     (case body of (bytes, err) \<Rightarrow>
        if n \<le> length bytes then Inr (take n bytes)
        else (case err of None \<Rightarrow> Inr bytes | Some e \<Rightarrow> Inl e))"

text \<open>
  What a \<open>Fetch\<close> does besides returning: the log lines, the cache reads and writes,
  the HTTP round trips of the client's own \<open>http.Client\<close>, and the calls of
  \<open>cache.FetchURL\<close> (which reads the cache and, on a miss, does the round trip).
\<close>

datatype effect =
    LogInfo string
  | CacheGet string
  | CacheSetAsync string string
  | HTTPDo Request
  | CacheFetchURL Request

fun is_http :: "effect \<Rightarrow> bool" where
  "is_http (HTTPDo req) = True"
| "is_http (CacheFetchURL req) = True"
| "is_http e = False"

text \<open>
  A regular expression with one group, searched with \<open>FindStringSubmatch\<close>: the text
  of the group in the leftmost match, or \<open>None\<close> when there is no match.  The
  expression \<open>lit([^/?]+)\<close>, for a literal \<open>lit\<close>, is written out; the other
  expressions of the repository are parameters.
\<close>

type_synonym submatch = "string \<Rightarrow> string option"

definition no_sep :: "char \<Rightarrow> bool" where
  "no_sep c = (c \<noteq> CHR ''/'' \<and> c \<noteq> CHR ''?'')"

primrec submatch_after :: "string \<Rightarrow> string \<Rightarrow> string option" where
  "submatch_after lit [] = None"
| "submatch_after lit (c # t) =
     (if prefix lit (c # t) \<and> takeWhile no_sep (drop (length lit) (c # t)) \<noteq> []
      then Some (takeWhile no_sep (drop (length lit) (c # t)))
      else submatch_after lit t)"

text \<open>
  \<open>dedupeLinks\<close>, the same function in the github and the generic package.
  \<open>normalize\<close> names the key it computes for a link.
\<close>

definition normalize :: "to_lower \<Rightarrow> string \<Rightarrow> string" where
  "normalize toLower link = TrimSuffix (toLower link) ''/''"

fun dedupe_loop ::
  "to_lower \<Rightarrow> string set \<Rightarrow> string list \<Rightarrow> string list \<Rightarrow> string list" where
  "dedupe_loop toLower seen result [] = result"
| "dedupe_loop toLower seen result (link # links) =
     (let normalized = normalize toLower link in
      if normalized \<notin> seen
      then dedupe_loop toLower (insert normalized seen) (result @ [link]) links
      else dedupe_loop toLower seen result links)"

definition dedupeLinks :: "to_lower \<Rightarrow> string list \<Rightarrow> string list" where
  "dedupeLinks toLower links = dedupe_loop toLower {} [] links"

section \<open>The GitHub platform (package github)\<close>

definition platform_github :: string where
  "platform_github = ''github''"

definition nonProfiles_github :: "string list" where
  "nonProfiles_github =
     [''features'', ''security'', ''enterprise'', ''team'',
      ''marketplace'', ''sponsors'', ''topics'', ''trending'',
      ''collections'', ''orgs'', ''solutions'', ''resources'',
      ''customer-stories'', ''partners'', ''accelerator'',
      ''trust-center'', ''why-github'', ''mcp'', ''fluidicon'',
      ''login'', ''join'', ''pricing'', ''about'',
      ''premium-support'', ''newsletter'', ''edu'', ''mobile'',
      ''readme'', ''explore'', ''new'', ''settings'',
      ''notifications'', ''issues'', ''pulls'', ''codespaces'',
      ''copilot'', ''actions'', ''projects'', ''packages'',
      ''discussions'', ''wiki'', ''stars'', ''watching'',
      ''search'', ''site'', ''apps'']"

text \<open>
  The path of a profile URL, as both \<open>Match\<close> functions cut it out of the lower-case
  URL: what follows the first occurrence of \<open>site\<close>, without one trailing slash and
  without the query.
\<close>

definition profile_path :: "string \<Rightarrow> string \<Rightarrow> string" where
  "profile_path site lower =
     (let idx = Index lower site;
          path = drop (nat (idx + int (length site))) lower;
          path = TrimSuffix path ''/'';
          qIdx = Index path ''?''
      in if qIdx \<ge> 0 then take (nat qIdx) path else path)"

definition Match_github :: "to_lower \<Rightarrow> string \<Rightarrow> bool" where
  "Match_github toLower urlStr =
     (let lower = toLower urlStr in
      if \<not> Contains lower ''github.com/'' then False
      else
        let path = profile_path ''github.com/'' lower in
        if Contains path ''/'' then False
        else path \<noteq> [] \<and> path \<notin> set nonProfiles_github)"

text \<open>The decoded JSON object of the users API.\<close>

record ghUser =
  gh_Login :: string
  gh_Name :: string
  gh_Bio :: string
  gh_Location :: string
  gh_Blog :: string
  gh_Email :: string
  gh_TwitterUser :: string
  gh_Company :: string
  gh_PublicRepos :: int
  gh_Followers :: int
  gh_Following :: int
  gh_AvatarURL :: string
  gh_HTMLURL :: string
  gh_Type :: string

definition zero_ghUser :: ghUser where
  "zero_ghUser =
     \<lparr>gh_Login = [], gh_Name = [], gh_Bio = [], gh_Location = [], gh_Blog = [],
      gh_Email = [], gh_TwitterUser = [], gh_Company = [], gh_PublicRepos = 0,
      gh_Followers = 0, gh_Following = 0, gh_AvatarURL = [], gh_HTMLURL = [],
      gh_Type = []\<rparr>"

text \<open>
  What the github package takes from outside the files at hand: the standard library
  (\<open>strings.ToLower\<close>, \<open>http.NewRequestWithContext\<close>, \<open>json.Unmarshal\<close> into the
  struct above, \<open>strings.TrimSpace\<close>, the regular expressions), and the packages \<open>cache\<close>
  (\<open>FetchURL\<close>, with the client's cache and HTTP client) and \<open>htmlutil\<close>.
  A regular expression searched with \<open>FindAllStringSubmatch\<close> gives the groups of
  every match, in order.
\<close>

record github_lib =
  gh_ToLower :: to_lower
  gh_NewRequest :: "string \<Rightarrow> error + Request"
  gh_FetchURL :: "Request \<Rightarrow> error + string"
  gh_Unmarshal :: "string \<Rightarrow> error + ghUser"
  gh_ExtractEmailFromURL :: "string \<Rightarrow> string \<times> bool"
  gh_IsEmailURL :: "string \<Rightarrow> bool"
  gh_SocialLinks :: "string \<Rightarrow> string list"
  gh_ToMarkdown :: "string \<Rightarrow> string"
  gh_TrimSpace :: "string \<Rightarrow> string"
  articlePattern :: submatch
  relMePattern :: "string \<Rightarrow> string list"
  hrefFirstPattern :: "string \<Rightarrow> string list"
  orgPattern :: "string \<Rightarrow> (string \<times> string) list"
  linkPattern :: "string \<Rightarrow> (string \<times> string) list"

definition setField :: "string \<Rightarrow> string \<Rightarrow> Profile \<Rightarrow> Profile" where
  "setField k v prof = prof\<lparr>Fields := (Fields prof)(k \<mapsto> v)\<rparr>"

text \<open>The blocks of \<open>parseJSON\<close>, one definition for each, in the order of the source.\<close>

definition addBlog :: "github_lib \<Rightarrow> ghUser \<Rightarrow> Profile \<Rightarrow> Profile" where
  "addBlog L g prof =
     (if gh_Blog g \<noteq> [] then
        (let blog = gh_Blog g;
             blogLower = gh_ToLower L blog
         in if HasPrefix blogLower ''mailto:''
            then (let email = TrimPrefix blogLower ''mailto:'' in setField ''email'' email prof)
            else
              (let website = (if \<not> HasPrefix blog ''http'' then ''https://'' @ blog else blog)
               in case gh_ExtractEmailFromURL L website of
                    (email, isEmail) \<Rightarrow>
                      if isEmail then setField ''email'' email prof
                      else setField ''website'' website (prof\<lparr>Website := website\<rparr>)))
      else prof)"

definition addEmail :: "ghUser \<Rightarrow> Profile \<Rightarrow> Profile" where
  "addEmail g prof = (if gh_Email g \<noteq> [] then setField ''email'' (gh_Email g) prof else prof)"

definition addCompany :: "ghUser \<Rightarrow> Profile \<Rightarrow> Profile" where
  "addCompany g prof =
     (if gh_Company g \<noteq> []
      then (let company = TrimPrefix (gh_Company g) ''@'' in setField ''company'' company prof)
      else prof)"

definition addTwitter :: "ghUser \<Rightarrow> Profile \<Rightarrow> Profile" where
  "addTwitter g prof =
     (if gh_TwitterUser g \<noteq> []
      then (let twitterURL = ''https://twitter.com/'' @ gh_TwitterUser g;
                prof = setField ''twitter'' twitterURL prof
            in prof\<lparr>SocialLinks := SocialLinks prof @ [twitterURL]\<rparr>)
      else prof)"

definition addStats :: "ghUser \<Rightarrow> Profile \<Rightarrow> Profile" where
  "addStats g prof =
     (let prof = (if gh_PublicRepos g > 0
                  then setField ''public_repos'' (Itoa (gh_PublicRepos g)) prof else prof);
          prof = (if gh_Followers g > 0
                  then setField ''followers'' (Itoa (gh_Followers g)) prof else prof)
      in if gh_Following g > 0
         then setField ''following'' (Itoa (gh_Following g)) prof else prof)"

definition addAvatar :: "ghUser \<Rightarrow> Profile \<Rightarrow> Profile" where
  "addAvatar g prof =
     (if gh_AvatarURL g \<noteq> [] then setField ''avatar_url'' (gh_AvatarURL g) prof else prof)"

definition addType :: "ghUser \<Rightarrow> Profile \<Rightarrow> Profile" where
  "addType g prof = (if gh_Type g \<noteq> [] then setField ''type'' (gh_Type g) prof else prof)"

definition parseJSON :: "github_lib \<Rightarrow> string \<Rightarrow> string \<Rightarrow> string \<Rightarrow> error + Profile" where
  "parseJSON L data urlStr username =
     (case gh_Unmarshal L data of
        Inl err \<Rightarrow> Inl err
      | Inr g \<Rightarrow>
          (let prof = zeroProfile
                 \<lparr>Platform := platform_github, URL := urlStr, Authenticated := False,
                  Username := gh_Login g, Name := gh_Name g, Bio := gh_Bio g,
                  Location := gh_Location g, Fields := Map.empty\<rparr>
           in Inr (addType g (addAvatar g (addStats g (addTwitter g (addCompany g
                (addEmail g (addBlog L g prof)))))))))"

definition extractUsername_github :: "string \<Rightarrow> string" where
  "extractUsername_github urlStr =
     (let urlStr = TrimPrefix urlStr ''https://'';
          urlStr = TrimPrefix urlStr ''http://'';
          urlStr = TrimPrefix urlStr ''www.''
      in case submatch_after ''github.com/'' urlStr of Some m \<Rightarrow> m | None \<Rightarrow> [])"

definition filterSamePlatformLinks :: "to_lower \<Rightarrow> string list \<Rightarrow> string list" where
  "filterSamePlatformLinks toLower links = filter (\<lambda>link. \<not> Match_github toLower link) links"

definition extractREADMEHTML :: "github_lib \<Rightarrow> string \<Rightarrow> string" where
  "extractREADMEHTML L htmlContent =
     (case articlePattern L htmlContent of
        None \<Rightarrow> []
      | Some readmeHTML \<Rightarrow> if gh_TrimSpace L readmeHTML = [] then [] else readmeHTML)"

text \<open>The two loops of \<open>extractSocialLinks\<close>, over the matches of the two expressions.\<close>

definition relMe_links :: "github_lib \<Rightarrow> string list \<Rightarrow> string list" where
  "relMe_links L ms =
     filter (\<lambda>link. \<not> Contains link ''github.com'' \<and> \<not> gh_IsEmailURL L link) ms"

fun hrefFirst_links :: "github_lib \<Rightarrow> string list \<Rightarrow> string list \<Rightarrow> string list" where
  "hrefFirst_links L links [] = links"
| "hrefFirst_links L links (link # ms) =
     (if Contains link ''github.com'' \<or> gh_IsEmailURL L link then hrefFirst_links L links ms
      else if link \<in> set links then hrefFirst_links L links ms
      else hrefFirst_links L (links @ [link]) ms)"

definition extractSocialLinks :: "github_lib \<Rightarrow> string \<Rightarrow> string list" where
  "extractSocialLinks L html =
     hrefFirst_links L (relMe_links L (relMePattern L html)) (hrefFirstPattern L html)"

text \<open>
  \<open>extractOrganizations\<close>: the names of the first expression's matches without
  repetition; when there is none, the labels of the second expression's matches that
  look like an organization.
\<close>

fun org_loop :: "string list \<Rightarrow> string list \<Rightarrow> string list" where
  "org_loop orgs [] = orgs"
| "org_loop orgs (orgName # ms) =
     (if orgName \<in> set orgs then org_loop orgs ms else org_loop (orgs @ [orgName]) ms)"

definition org_label :: "to_lower \<Rightarrow> string \<Rightarrow> bool" where
  "org_label toLower orgName =
     (Contains (toLower orgName) ''organization'' \<or>
      (length orgName < 50 \<and> \<not> Contains orgName '' ''))"

definition extractOrganizations :: "github_lib \<Rightarrow> string \<Rightarrow> string list" where
  "extractOrganizations L html =
     (let orgs = org_loop [] (map fst (orgPattern L html))
      in if length orgs = 0
         then org_loop orgs (filter (org_label (gh_ToLower L)) (map snd (linkPattern L html)))
         else orgs)"

definition Join :: "string list \<Rightarrow> string \<Rightarrow> string" where
  "Join elems sep = (case elems of [] \<Rightarrow> [] | e # es \<Rightarrow> e @ concat (map (\<lambda>x. sep @ x) es))"

definition fetchAPI :: "github_lib \<Rightarrow> string \<Rightarrow> string \<Rightarrow> error + Profile" where
  "fetchAPI L urlStr username =
     (let apiURL = ''https://api.github.com/users/'' @ username in
      case gh_NewRequest L apiURL of
        Inl err \<Rightarrow> Inl err
      | Inr req \<Rightarrow>
          (let req = Header_Set ''Accept'' ''application/vnd.github.v3+json'' req;
               req = Header_Set ''User-Agent'' ''sociopath/1.0'' req
           in case gh_FetchURL L req of
                Inl err \<Rightarrow> Inl err
              | Inr body \<Rightarrow> parseJSON L body urlStr username))"

definition browser_agent :: string where
  "browser_agent =
     ''Mozilla/5.0 (Macintosh; Intel Mac OS X 10.15; rv:146.0) Gecko/20100101 Firefox/146.0''"

definition fetchHTML :: "github_lib \<Rightarrow> string \<Rightarrow> string \<times> string list" where
  "fetchHTML L urlStr =
     (case gh_NewRequest L urlStr of
        Inl err \<Rightarrow> ([], [])
      | Inr req \<Rightarrow>
          (let req = Header_Set ''User-Agent'' browser_agent req
           in case gh_FetchURL L req of
                Inl err \<Rightarrow> ([], [])
              | Inr body \<Rightarrow> (body, extractSocialLinks L body)))"

text \<open>The URL that \<open>Fetch\<close> goes on with (its block ``Normalize URL'').\<close>

definition profileURL :: "string \<Rightarrow> string \<Rightarrow> string \<Rightarrow> string" where
  "profileURL site urlStr username =
     (if \<not> HasPrefix urlStr ''http'' then site @ username else urlStr)"

definition Fetch_github :: "github_lib \<Rightarrow> string \<Rightarrow> error + Profile" where
  "Fetch_github L urlStr =
     (let username = extractUsername_github urlStr in
      if username = [] then Inl (Error (''could not extract username from: '' @ urlStr))
      else
        let urlStr = profileURL ''https://github.com/'' urlStr username
        in case fetchAPI L urlStr username of
             Inl err \<Rightarrow> Inl err
           | Inr prof \<Rightarrow>
               (case fetchHTML L urlStr of
                  (htmlContent, htmlLinks) \<Rightarrow>
                    (let prof = prof\<lparr>SocialLinks := SocialLinks prof @ htmlLinks\<rparr>;
                         prof =
                           (if htmlContent \<noteq> [] then
                              (let orgs = extractOrganizations L htmlContent;
                                   prof = (if length orgs > 0
                                           then setField ''organizations'' (Join orgs '', '') prof
                                           else prof);
                                   readmeHTML = extractREADMEHTML L htmlContent
                               in if readmeHTML \<noteq> [] then
                                    (let readmeLinks = gh_SocialLinks L readmeHTML
                                     in prof\<lparr>SocialLinks := SocialLinks prof @ readmeLinks,
                                             Unstructured := gh_ToMarkdown L readmeHTML\<rparr>)
                                  else prof)
                            else prof);
                         prof = prof\<lparr>SocialLinks := dedupeLinks (gh_ToLower L) (SocialLinks prof)\<rparr>;
                         prof = prof\<lparr>SocialLinks :=
                                  filterSamePlatformLinks (gh_ToLower L) (SocialLinks prof)\<rparr>
                     in Inr prof)))"

section \<open>The Codeberg platform (package codeberg)\<close>

definition platform_codeberg :: string where
  "platform_codeberg = ''codeberg''"

definition nonProfiles_codeberg :: "string list" where
  "nonProfiles_codeberg =
     [''explore'', ''user'', ''repo'', ''org'',
      ''admin'', ''api'', ''swagger'', ''assets'',
      ''codeberg'', ''codeberg-infrastructure'']"

definition Match_codeberg :: "to_lower \<Rightarrow> string \<Rightarrow> bool" where
  "Match_codeberg toLower urlStr =
     (let lower = toLower urlStr in
      if \<not> Contains lower ''codeberg.org/'' then False
      else
        let path = profile_path ''codeberg.org/'' lower in
        if Contains path ''/'' then False
        else path \<noteq> [] \<and> path \<notin> set nonProfiles_codeberg)"

text \<open>
  The standard library as the codeberg package uses it: \<open>http.NewRequestWithContext\<close>,
  \<open>html.UnescapeString\<close>, \<open>strings.TrimSpace\<close> and the regular expressions of
  \<open>parseHTML\<close>, each with one group.
\<close>

record codeberg_lib =
  cb_NewRequest :: "string \<Rightarrow> error + Request"
  cb_UnescapeString :: "string \<Rightarrow> string"
  cb_TrimSpace :: "string \<Rightarrow> string"
  ogTitlePattern :: submatch
  avatarTitlePattern :: submatch
  headerPattern :: submatch
  ogDescPattern :: submatch
  websitePattern :: submatch
  websitePattern2 :: submatch
  joinedPattern :: submatch
  followersPattern :: submatch
  followingPattern :: submatch
  pronounsPattern :: submatch

text \<open>The client: its cache (nil is \<open>None\<close>) and the \<open>Do\<close> of its \<open>http.Client\<close>.\<close>

record Client_codeberg =
  cb_cache :: "HTTPCache option"
  cb_Do :: "Request \<Rightarrow> error + Response"

text \<open>The blocks of \<open>parseHTML\<close>, one definition for each, in the order of the source.\<close>

definition nameFrom :: "codeberg_lib \<Rightarrow> submatch \<Rightarrow> string \<Rightarrow> Profile \<Rightarrow> Profile" where
  "nameFrom L pattern content p =
     (case pattern content of
        Some m \<Rightarrow> p\<lparr>Name := cb_TrimSpace L (cb_UnescapeString L m)\<rparr>
      | None \<Rightarrow> p)"

definition nameFallback :: "codeberg_lib \<Rightarrow> submatch \<Rightarrow> string \<Rightarrow> Profile \<Rightarrow> Profile" where
  "nameFallback L pattern content p = (if Name p = [] then nameFrom L pattern content p else p)"

definition bioFrom :: "codeberg_lib \<Rightarrow> string \<Rightarrow> Profile \<Rightarrow> Profile" where
  "bioFrom L content p =
     (case ogDescPattern L content of
        Some m \<Rightarrow>
          (let bio = cb_TrimSpace L (cb_UnescapeString L m)
           in if bio \<noteq> [] \<and> \<not> Contains bio ''Codeberg is a non-profit''
              then p\<lparr>Bio := bio\<rparr> else p)
      | None \<Rightarrow> p)"

definition websiteFrom :: "codeberg_lib \<Rightarrow> string \<Rightarrow> Profile \<Rightarrow> Profile" where
  "websiteFrom L content p =
     (case websitePattern L content of
        Some website \<Rightarrow>
          (if \<not> Contains website ''codeberg.org'' \<and>
              \<not> Contains website ''docs.codeberg.org'' \<and>
              \<not> Contains website ''blog.codeberg.org''
           then p\<lparr>Website := website\<rparr> else p)
      | None \<Rightarrow> p)"

definition websiteFallback :: "codeberg_lib \<Rightarrow> string \<Rightarrow> Profile \<Rightarrow> Profile" where
  "websiteFallback L content p =
     (if Website p = [] then
        (case websitePattern2 L content of
           Some website \<Rightarrow>
             (if \<not> Contains website ''codeberg.org'' then p\<lparr>Website := website\<rparr> else p)
         | None \<Rightarrow> p)
      else p)"

definition fieldFrom :: "string \<Rightarrow> submatch \<Rightarrow> string \<Rightarrow> Profile \<Rightarrow> Profile" where
  "fieldFrom k pattern content p =
     (case pattern content of Some m \<Rightarrow> setField k m p | None \<Rightarrow> p)"

definition pronounsFrom :: "codeberg_lib \<Rightarrow> string \<Rightarrow> Profile \<Rightarrow> Profile" where
  "pronounsFrom L content p =
     (case pronounsPattern L content of
        Some m \<Rightarrow>
          (let pronouns = cb_TrimSpace L m
           in if pronouns \<noteq> [] \<and> length pronouns < 20
              then setField ''pronouns'' pronouns p else p)
      | None \<Rightarrow> p)"

definition parseHTML_codeberg :: "codeberg_lib \<Rightarrow> string \<Rightarrow> string \<Rightarrow> string \<Rightarrow> Profile" where
  "parseHTML_codeberg L content urlStr username =
     (let p = zeroProfile
               \<lparr>Platform := platform_codeberg, URL := urlStr, Authenticated := False,
                Username := username, Fields := Map.empty\<rparr>;
          p = nameFrom L (ogTitlePattern L) content p;
          p = nameFallback L (avatarTitlePattern L) content p;
          p = nameFallback L (headerPattern L) content p;
          p = bioFrom L content p;
          p = websiteFrom L content p;
          p = websiteFallback L content p;
          p = fieldFrom ''joined'' (joinedPattern L) content p;
          p = fieldFrom ''followers'' (followersPattern L) content p;
          p = fieldFrom ''following'' (followingPattern L) content p;
          p = pronounsFrom L content p
      in p)"

definition extractUsername_codeberg :: "string \<Rightarrow> string" where
  "extractUsername_codeberg urlStr =
     (let urlStr = TrimPrefix urlStr ''https://'';
          urlStr = TrimPrefix urlStr ''http://'';
          urlStr = TrimPrefix urlStr ''www.''
      in case submatch_after ''codeberg.org/'' urlStr of Some m \<Rightarrow> m | None \<Rightarrow> [])"

text \<open>
  \<open>Fetch\<close> returns its result and what it did, in order.  \<open>fetch_network\<close> is the part
  of \<open>Fetch\<close> below the cache check; \<open>effs\<close> is what it did before.
\<close>

definition fetch_network ::
  "codeberg_lib \<Rightarrow> Client_codeberg \<Rightarrow> string \<Rightarrow> string \<Rightarrow> effect list \<Rightarrow>
   (error + Profile) \<times> effect list" where
  "fetch_network L c urlStr username effs =
     (case cb_NewRequest L urlStr of
        Inl err \<Rightarrow> (Inl err, effs)
      | Inr req \<Rightarrow>
          (let req = Header_Set ''User-Agent'' browser_agent req;
               effs = effs @ [HTTPDo req]
           in case cb_Do c req of
                Inl err \<Rightarrow> (Inl err, effs)
              | Inr resp \<Rightarrow>
                  if StatusCode resp \<noteq> 200
                  then (Inl (Error (''HTTP '' @ Itoa (StatusCode resp))), effs)
                  else
                    (case ReadAllLimit (2 ^ 20) (Body resp) of
                       Inl err \<Rightarrow> (Inl err, effs)
                     | Inr body \<Rightarrow>
                         (let effs = (case cb_cache c of
                                        Some ch \<Rightarrow> effs @ [CacheSetAsync urlStr body]
                                      | None \<Rightarrow> effs);
                              ignored = (case cb_cache c of
                                           Some ch \<Rightarrow> SetAsync ch urlStr body [] []
                                         | None \<Rightarrow> None)
                          in (Inr (parseHTML_codeberg L body urlStr username), effs)))))"

definition Fetch_codeberg ::
  "codeberg_lib \<Rightarrow> Client_codeberg \<Rightarrow> string \<Rightarrow> (error + Profile) \<times> effect list" where
  "Fetch_codeberg L c urlStr =
     (let username = extractUsername_codeberg urlStr in
      if username = [] then (Inl (Error (''could not extract username from: '' @ urlStr)), [])
      else
        let urlStr = profileURL ''https://codeberg.org/'' urlStr username;
            effs = [LogInfo ''fetching codeberg profile'']
        in case cb_cache c of
             Some ch \<Rightarrow>
               (case Get ch urlStr of
                  (data, etag, hdrs, found) \<Rightarrow>
                    if found
                    then (Inr (parseHTML_codeberg L data urlStr username),
                          effs @ [CacheGet urlStr])
                    else fetch_network L c urlStr username (effs @ [CacheGet urlStr]))
           | None \<Rightarrow> fetch_network L c urlStr username effs)"

section \<open>The generic platform (package generic)\<close>

definition platform_generic :: string where
  "platform_generic = ''generic''"

definition Match_generic :: "string \<Rightarrow> bool" where
  "Match_generic u = True"

text \<open>
  What the generic package takes from outside: \<open>strings.ToLower\<close>, \<open>net/url\<close>
  (\<open>Parse\<close> and the method \<open>Hostname\<close>), \<open>net\<close> (\<open>ParseIP\<close>, nil being \<open>None\<close>,
  and the four address classes), \<open>http.NewRequestWithContext\<close>, \<open>cache.FetchURL\<close> and
  \<open>htmlutil\<close>.  The
  selection of blog posts and of a date in a URL (\<open>extractBlogPosts\<close>,
  \<open>extractDateFromURL\<close>) is a search with regular expressions and enters \<open>parseHTML\<close>
  through its result only.
\<close>

type_synonym IP = string

record generic_lib =
  gen_ToLower :: to_lower
  gen_Parse :: url_parser
  gen_Hostname :: "URL \<Rightarrow> string"
  gen_ParseIP :: "string \<Rightarrow> IP option"
  IsLoopback :: "IP \<Rightarrow> bool"
  IsPrivate :: "IP \<Rightarrow> bool"
  IsLinkLocalUnicast :: "IP \<Rightarrow> bool"
  IsLinkLocalMulticast :: "IP \<Rightarrow> bool"
  gen_NewRequest :: "string \<Rightarrow> error + Request"
  gen_FetchURL :: "Request \<Rightarrow> error + string"
  gen_Title :: "string \<Rightarrow> string"
  gen_Description :: "string \<Rightarrow> string"
  gen_ToMarkdown :: "string \<Rightarrow> string"
  gen_SocialLinks :: "string \<Rightarrow> string list"
  gen_ContactLinks :: "string \<Rightarrow> string \<Rightarrow> string list"
  gen_EmailAddresses :: "string \<Rightarrow> string list"
  gen_extractBlogPosts :: "string \<Rightarrow> string \<Rightarrow> Post list"
  gen_extractDateFromURL :: "string \<Rightarrow> string"

text \<open>The three checks of \<open>validateURL\<close>, on the host name in lower case.\<close>

definition localHost :: "string \<Rightarrow> bool" where
  "localHost host =
     (host = ''localhost'' \<or> host = ''127.0.0.1'' \<or> host = ''::1'' \<or>
      HasSuffix host ''.local'' \<or> HasSuffix host ''.internal'')"

definition privateIP :: "generic_lib \<Rightarrow> string \<Rightarrow> bool" where
  "privateIP L host =
     (case gen_ParseIP L host of
        Some ip \<Rightarrow> IsLoopback L ip \<or> IsPrivate L ip \<or>
                   IsLinkLocalUnicast L ip \<or> IsLinkLocalMulticast L ip
      | None \<Rightarrow> False)"

definition metadataService :: "string \<Rightarrow> bool" where
  "metadataService host =
     (host = ''169.254.169.254'' \<or> host = ''metadata.google.internal'' \<or>
      host = ''metadata.azure.com'')"

definition validateURL :: "generic_lib \<Rightarrow> string \<Rightarrow> error option" where
  "validateURL L urlStr =
     (case gen_Parse L urlStr of
        Inl err \<Rightarrow> Some (Error (''invalid URL: '' @ message err))
      | Inr parsed \<Rightarrow>
          (let host = gen_ToLower L (gen_Hostname L parsed) in
           if localHost host then Some (Error ''blocked: local host'')
           else if privateIP L host then Some (Error ''blocked: private IP'')
           else if metadataService host then Some (Error ''blocked: metadata service'')
           else None))"

text \<open>
  \<open>cleanEmail\<close> finds \<open>nospam\<close> in the lower-case copy and cuts six bytes at that
  index out of the email itself.  Where the copy is longer than the email, the index
  can lie beyond the email, and the slice expression panics.
\<close>

definition cleanEmail :: "to_lower \<Rightarrow> string \<Rightarrow> error + string" where
  "cleanEmail toLower email =
     (let lower = toLower email in
      if Contains lower ''nospam''
      then (let idx = nat (Index lower ''nospam'') in
            if idx + 6 \<le> length email
            then Inr (take idx email @ drop (idx + 6) email)
            else Inl (Panic ''slice bounds out of range''))
      else Inr email)"

text \<open>The loop over \<open>emails[1:]\<close>: the email at index \<open>i\<close> goes to the key \<open>email_(i+2)\<close>.\<close>

fun moreEmails :: "to_lower \<Rightarrow> nat \<Rightarrow> string list \<Rightarrow> Profile \<Rightarrow> error + Profile" where
  "moreEmails toLower i [] p = Inr p"
| "moreEmails toLower i (email # emails) p =
     (case cleanEmail toLower email of
        Inl err \<Rightarrow> Inl err
      | Inr cleaned \<Rightarrow>
          moreEmails toLower (i + 1) emails (setField (''email_'' @ Itoa (int i + 2)) cleaned p))"

text \<open>\<open>parseHTML\<close> returns the profile, unless \<open>cleanEmail\<close> panics.\<close>

definition parseHTML_generic :: "generic_lib \<Rightarrow> string \<Rightarrow> string \<Rightarrow> error + Profile" where
  "parseHTML_generic L content urlStr =
     (let p = zeroProfile
               \<lparr>Platform := platform_generic, URL := urlStr, Authenticated := False,
                Fields := Map.empty\<rparr>;
          p = p\<lparr>Name := gen_Title L content, Bio := gen_Description L content,
                Unstructured := gen_ToMarkdown L content\<rparr>;
          p = p\<lparr>SocialLinks := gen_SocialLinks L content\<rparr>;
          contactLinks = gen_ContactLinks L content urlStr;
          p = p\<lparr>SocialLinks := SocialLinks p @ contactLinks\<rparr>;
          p = p\<lparr>SocialLinks := dedupeLinks (gen_ToLower L) (SocialLinks p)\<rparr>;
          emails = gen_EmailAddresses L content
      in case (case emails of
                 [] \<Rightarrow> Inr p
               | e # others \<Rightarrow>
                   (case cleanEmail (gen_ToLower L) e of
                      Inl err \<Rightarrow> Inl err
                    | Inr cleaned \<Rightarrow>
                        moreEmails (gen_ToLower L) 0 others (setField ''email'' cleaned p))) of
           Inl err \<Rightarrow> Inl err
         | Inr p \<Rightarrow>
             (let posts = gen_extractBlogPosts L content urlStr
              in case posts of
                   [] \<Rightarrow> Inr p
                 | (ptype, ptitle, purl) # rest \<Rightarrow>
                     (let p = p\<lparr>Posts := posts, Platform := ''blog''\<rparr>
                      in if purl \<noteq> []
                         then Inr (p\<lparr>LastActive := gen_extractDateFromURL L purl\<rparr>)
                         else Inr p)))"

text \<open>The URL that \<open>Fetch\<close> goes on with (its block ``Normalize URL'').\<close>

definition withScheme :: "string \<Rightarrow> string" where
  "withScheme urlStr =
     (if \<not> HasPrefix urlStr ''http://'' \<and> \<not> HasPrefix urlStr ''https://''
      then ''https://'' @ urlStr else urlStr)"

definition Fetch_generic ::
  "generic_lib \<Rightarrow> string \<Rightarrow> (error + Profile) \<times> effect list" where
  "Fetch_generic L urlStr =
     (let urlStr = withScheme urlStr
      in case validateURL L urlStr of
           Some err \<Rightarrow> (Inl err, [])
         | None \<Rightarrow>
             (let effs = [LogInfo ''fetching generic website''] in
              case gen_NewRequest L urlStr of
                Inl err \<Rightarrow> (Inl err, effs)
              | Inr req \<Rightarrow>
                  (let req = Header_Set ''User-Agent'' browser_agent req;
                       req = Header_Set ''Accept''
                         ''text/html,application/xhtml+xml,application/xml;q=0.9,*/*;q=0.8'' req;
                       req = Header_Set ''Accept-Language'' ''en-US,en;q=0.5'' req;
                       effs = effs @ [CacheFetchURL req]
                   in case gen_FetchURL L req of
                        Inl err \<Rightarrow> (Inl err, effs)
                      | Inr body \<Rightarrow> (parseHTML_generic L body urlStr, effs))))"

section \<open>Sample collaborators\<close>

text \<open>
  Tables that stand for the collaborators on the inputs of the worked examples.
  \<open>sample_Parse\<close> has the results of \<open>url.Parse\<close> for five URLs and rejects every
  other string; the libraries below know the GitHub account \<open>octocat\<close>, the GitHub
  account \<open>acme\<close> whose company is \<open>@\<close>, and the Codeberg accounts \<open>jane\<close> and
  \<open>cached\<close>.
\<close>

definition sample_Parse :: url_parser where
  "sample_Parse s =
     (if s = ''https://example.com/a''
      then Inr \<lparr>Scheme = ''https'', Host = ''example.com'', Path = ''/a''\<rparr>
      else if s = ''http://example.com/b''
      then Inr \<lparr>Scheme = ''http'', Host = ''example.com'', Path = ''/b''\<rparr>
      else if s = ''example.com/a''
      then Inr \<lparr>Scheme = [], Host = [], Path = ''example.com/a''\<rparr>
      else if s = ''https://localhost''
      then Inr \<lparr>Scheme = ''https'', Host = ''localhost'', Path = []\<rparr>
      else if s = ''https://10.0.0.1''
      then Inr \<lparr>Scheme = ''https'', Host = ''10.0.0.1'', Path = []\<rparr>
      else Inl (Error ''missing protocol scheme''))"

definition sample_Request :: "string \<Rightarrow> error + Request" where
  "sample_Request u = Inr \<lparr>reqURL = u, reqHeader = []\<rparr>"

definition octocat_json :: string where
  \<open>octocat_json = ''{"login":"octocat","twitter_username":"octo"}''\<close>

definition acme_json :: string where
  \<open>acme_json = ''{"login":"acme","company":"@"}''\<close>

definition octocat_readme :: string where
  \<open>octocat_readme = ''<a href="https://github.com/friend">f</a><a href="https://example.org/me">me</a>''\<close>

definition octocat_html :: string where
  \<open>octocat_html =
     ''<a rel="nofollow me" href="https://hachyderm.io/@octocat">m</a>'' @
     ''<article class="markdown-body">'' @ octocat_readme @ ''</article>''\<close>

definition sample_github_lib :: github_lib where
  "sample_github_lib =
     \<lparr>gh_ToLower = ToLower_ascii,
      gh_NewRequest = sample_Request,
      gh_FetchURL = (\<lambda>req.
        if reqURL req = ''https://api.github.com/users/octocat'' then Inr octocat_json
        else if reqURL req = ''https://github.com/octocat'' then Inr octocat_html
        else Inl (Error ''HTTP 404'')),
      gh_Unmarshal = (\<lambda>data.
        if data = octocat_json
        then Inr (zero_ghUser\<lparr>gh_Login := ''octocat'', gh_TwitterUser := ''octo''\<rparr>)
        else if data = acme_json
        then Inr (zero_ghUser\<lparr>gh_Login := ''acme'', gh_Company := ''@''\<rparr>)
        else Inl (Error ''unexpected end of JSON input'')),
      gh_ExtractEmailFromURL = (\<lambda>u. ([], False)),
      gh_IsEmailURL = (\<lambda>u. False),
      gh_SocialLinks = (\<lambda>html.
        if html = octocat_readme
        then [''https://github.com/friend'', ''https://example.org/me''] else []),
      gh_ToMarkdown = (\<lambda>html. html),
      gh_TrimSpace = (\<lambda>s. s),
      articlePattern = (\<lambda>html. if html = octocat_html then Some octocat_readme else None),
      relMePattern = (\<lambda>html.
        if html = octocat_html then [''https://hachyderm.io/@octocat''] else []),
      hrefFirstPattern = (\<lambda>html. []),
      orgPattern = (\<lambda>html. []),
      linkPattern = (\<lambda>html. [])\<rparr>"

definition jane_html :: string where
  \<open>jane_html = ''<meta property="og:title" content="Jane Doe">''\<close>

definition sample_codeberg_lib :: codeberg_lib where
  "sample_codeberg_lib =
     \<lparr>cb_NewRequest = sample_Request,
      cb_UnescapeString = (\<lambda>s. s),
      cb_TrimSpace = (\<lambda>s. s),
      ogTitlePattern = (\<lambda>content. if content = jane_html then Some ''Jane Doe'' else None),
      avatarTitlePattern = (\<lambda>content. None),
      headerPattern = (\<lambda>content. None),
      ogDescPattern = (\<lambda>content. None),
      websitePattern = (\<lambda>content. None),
      websitePattern2 = (\<lambda>content. None),
      joinedPattern = (\<lambda>content. None),
      followersPattern = (\<lambda>content. None),
      followingPattern = (\<lambda>content. None),
      pronounsPattern = (\<lambda>content. None)\<rparr>"

text \<open>A cache that holds one page and whose writes fail.\<close>

definition sample_cache :: HTTPCache where
  "sample_cache =
     \<lparr>Get = (\<lambda>u. if u = ''https://codeberg.org/cached''
                   then (jane_html, [], [], True) else ([], [], [], False)),
      SetAsync = (\<lambda>u data etag hdrs. Some (Error ''cache write failed''))\<rparr>"

definition sample_client :: Client_codeberg where
  "sample_client =
     \<lparr>cb_cache = Some sample_cache,
      cb_Do = (\<lambda>req.
        if reqURL req = ''https://codeberg.org/jane''
        then Inr \<lparr>StatusCode = 200, Body = (jane_html, None)\<rparr>
        else Inr \<lparr>StatusCode = 404, Body = ([], None)\<rparr>)\<rparr>"

definition sample_generic_lib :: generic_lib where
  "sample_generic_lib =
     \<lparr>gen_ToLower = ToLower_ascii,
      gen_Parse = sample_Parse,
      gen_Hostname = Host,
      gen_ParseIP = (\<lambda>s. if s = ''10.0.0.1'' then Some s else None),
      IsLoopback = (\<lambda>ip. False),
      IsPrivate = (\<lambda>ip. ip = ''10.0.0.1''),
      IsLinkLocalUnicast = (\<lambda>ip. False),
      IsLinkLocalMulticast = (\<lambda>ip. False),
      gen_NewRequest = sample_Request,
      gen_FetchURL = (\<lambda>req. Inl (Error ''HTTP 404'')),
      gen_Title = (\<lambda>content. []),
      gen_Description = (\<lambda>content. []),
      gen_ToMarkdown = (\<lambda>content. content),
      gen_SocialLinks = (\<lambda>content. []),
      gen_ContactLinks = (\<lambda>content u. []),
      gen_EmailAddresses = (\<lambda>content. []),
      gen_extractBlogPosts = (\<lambda>content u. []),
      gen_extractDateFromURL = (\<lambda>u. [])\<rparr>"

text \<open>
  The invariant of the limiter's world, used to prove the spacing of the stored times:
  the times stored for every domain are spaced, \<open>lastRequest\<close> holds the last of them,
  and none of them lies ahead of the clock.
\<close>

definition paced :: "world \<Rightarrow> bool" where
  "paced w =
     ((\<forall>h. spaced (minDelay (limiter w)) (stored h (trace w))) \<and>
      (\<forall>h. lastRequest (limiter w) h =
            (if stored h (trace w) = [] then None else Some (last (stored h (trace w))))) \<and>
      (\<forall>h t. lastRequest (limiter w) h = Some t \<longrightarrow> t \<le> clock w))"

section \<open>Facts about lower-casing\<close>

lemmas string_eval = TrimPrefix_def TrimSuffix_def HasPrefix_def HasSuffix_def ToLower_ascii_def
  lower_byte_def Contains_def suffix_to_prefix no_sep_def

lemma lower_byte_idem: "lower_byte (lower_byte c) = lower_byte c"
  by (simp add: lower_byte_def)

lemma ToLower_ascii_idem: "ToLower_ascii (ToLower_ascii s) = ToLower_ascii s"
  by (simp add: ToLower_ascii_def lower_byte_idem)

lemma ToLower_ascii_append: "ToLower_ascii (a @ b) = ToLower_ascii a @ ToLower_ascii b"
  by (simp add: ToLower_ascii_def)

lemma lower_byte_plain: "plain_byte c \<Longrightarrow> lower_byte c = c"
  by (auto simp: plain_byte_def lower_byte_def)

lemma ToLower_ascii_plain: "list_all plain_byte b \<Longrightarrow> ToLower_ascii b = b"
  by (induction b) (simp_all add: ToLower_ascii_def lower_byte_plain)

lemma keeps_ascii_ToLower_ascii: "keeps_ascii ToLower_ascii"
  unfolding keeps_ascii_def
  by (simp add: ToLower_ascii_append ToLower_ascii_plain)

lemma keeps_ascii_fix: "keeps_ascii toLower \<Longrightarrow> list_all plain_byte s \<Longrightarrow> toLower s = s"
proof -
  assume k: "keeps_ascii toLower" and p: "list_all plain_byte s"
  from k p have "toLower ([] @ s) = toLower [] @ s" unfolding keeps_ascii_def by blast
  moreover from k have "toLower [] = []" by (simp add: keeps_ascii_def)
  ultimately show ?thesis by simp
qed

lemma keeps_ascii_eq:
  "keeps_ascii toLower \<Longrightarrow> list_all plain_byte s \<Longrightarrow> host = s \<Longrightarrow> toLower host = s"
  by (simp add: keeps_ascii_fix)

lemma keeps_ascii_suffix:
  assumes "keeps_ascii toLower" "list_all plain_byte p" "HasSuffix host p"
  shows "HasSuffix (toLower host) p"
proof -
  from assms(3) obtain a where a: "host = a @ p" by (auto simp: HasSuffix_def suffix_def)
  from assms(1,2) have "toLower (a @ p) = toLower a @ p" unfolding keeps_ascii_def by blast
  then show ?thesis by (simp add: a HasSuffix_def suffix_def)
qed

section \<open>The rate limiter paces the requests of a domain\<close>

lemma stored_append: "stored h (es @ es') = stored h es @ stored h es'"
  by (induction h es rule: stored.induct) auto

lemma spaced_snoc:
  "spaced d (ts @ [t]) = (spaced d ts \<and> (ts = [] \<or> last ts + d \<le> t))"
  by (induction d ts rule: spaced.induct) auto

lemma paced_start: "paced (start d t0)"
  by (simp add: paced_def start_def NewDomainRateLimiter_def)

lemma minDelay_Wait: "minDelay (limiter (Wait parse c w)) = minDelay (limiter w)"
  by (simp add: Wait_def Let_def split: option.split prod.split)

text \<open>One call for a domain: what it appends to the trace and where it leaves the clock.\<close>

lemma Wait_step:
  assumes "extractDomain parse (url c) = dm" "dm \<noteq> []"
  shows "\<exists>t3 sl. trace (Wait parse c w) = trace w @ sl @ [Store dm t3] \<and>
           (\<forall>h. stored h sl = []) \<and>
           clock (Wait parse c w) = t3 \<and>
           lastRequest (limiter (Wait parse c w)) = (lastRequest (limiter w))(dm \<mapsto> t3) \<and>
           clock w \<le> t3 \<and>
           (\<forall>prev. lastRequest (limiter w) dm = Some prev \<longrightarrow> prev + minDelay (limiter w) \<le> t3)"
proof (cases "lastRequest (limiter w) dm")
  case None
  with assms show ?thesis
    by (intro exI[of _ "clock w + int (arrive c) + int (lag c)"] exI[of _ "[]"])
       (simp add: Wait_def Let_def)
next
  case (Some prev)
  show ?thesis
  proof (cases "clock w + int (arrive c) - prev < minDelay (limiter w)")
    case True
    with Some assms show ?thesis
      by (intro exI[of _ "minDelay (limiter w) + prev + int (oversleep c) + int (lag c)"]
            exI[of _ "[Sleep (minDelay (limiter w) - (clock w + int (arrive c) - prev))]"])
         (simp add: Wait_def Let_def)
  next
    case False
    with Some assms show ?thesis
      by (intro exI[of _ "clock w + int (arrive c) + int (lag c)"] exI[of _ "[]"])
         (simp add: Wait_def Let_def)
  qed
qed

lemma paced_Wait:
  assumes "paced w"
  shows "paced (Wait parse c w)"
proof (cases "extractDomain parse (url c) = []")
  case True
  with assms show ?thesis by (simp add: Wait_def)
next
  case False
  define dm where "dm = extractDomain parse (url c)"
  from False have dm: "extractDomain parse (url c) = dm" "dm \<noteq> []" by (simp_all add: dm_def)
  from Wait_step[OF dm, of w] obtain t3 sl where
    tr: "trace (Wait parse c w) = trace w @ sl @ [Store dm t3]" and
    sl: "\<And>h. stored h sl = []" and
    ck: "clock (Wait parse c w) = t3" and
    lr: "lastRequest (limiter (Wait parse c w)) = (lastRequest (limiter w))(dm \<mapsto> t3)" and
    mono: "clock w \<le> t3" and
    gap: "\<And>prev. lastRequest (limiter w) dm = Some prev \<Longrightarrow> prev + minDelay (limiter w) \<le> t3"
    by blast
  from assms have
    i1: "\<And>h. spaced (minDelay (limiter w)) (stored h (trace w))" and
    i2: "\<And>h. lastRequest (limiter w) h =
               (if stored h (trace w) = [] then None else Some (last (stored h (trace w))))" and
    i3: "\<And>h t. lastRequest (limiter w) h = Some t \<Longrightarrow> t \<le> clock w"
    by (simp_all add: paced_def)
  have st: "\<And>h. stored h (trace (Wait parse c w)) =
                 (if h = dm then stored h (trace w) @ [t3] else stored h (trace w))"
    by (simp add: tr stored_append sl)
  have j1: "spaced (minDelay (limiter (Wait parse c w))) (stored h (trace (Wait parse c w)))" for h
  proof (cases "h = dm")
    case True
    have "stored dm (trace w) = [] \<or> last (stored dm (trace w)) + minDelay (limiter w) \<le> t3"
    proof (cases "stored dm (trace w) = []")
      case True
      then show ?thesis by simp
    next
      case False
      then have "lastRequest (limiter w) dm = Some (last (stored dm (trace w)))"
        using i2[of dm] by simp
      from gap[OF this] show ?thesis by simp
    qed
    then show ?thesis using True i1[of dm] by (simp add: st minDelay_Wait spaced_snoc)
  next
    case False
    then show ?thesis using i1[of h] by (simp add: st minDelay_Wait)
  qed
  have j2: "lastRequest (limiter (Wait parse c w)) h =
              (if stored h (trace (Wait parse c w)) = [] then None
               else Some (last (stored h (trace (Wait parse c w)))))" for h
    using i2[of h] by (simp add: st lr)
  have j3: "t \<le> clock (Wait parse c w)"
    if "lastRequest (limiter (Wait parse c w)) h = Some t" for h t
  proof (cases "h = dm")
    case True
    with that show ?thesis by (simp add: lr ck)
  next
    case False
    with that have "lastRequest (limiter w) h = Some t" by (simp add: lr)
    from i3[OF this] mono show ?thesis by (simp add: ck)
  qed
  show ?thesis unfolding paced_def using j1 j2 j3 by blast
qed

lemma paced_run: "paced w \<Longrightarrow> paced (run parse w cs)"
  by (induction cs arbitrary: w) (auto simp: paced_Wait)

lemma minDelay_run: "minDelay (limiter (run parse w cs)) = minDelay (limiter w)"
  by (induction cs arbitrary: w) (auto simp: minDelay_Wait)

lemma spaced_run: "spaced d (stored h (trace (run parse (start d t0) cs)))"
proof -
  have "paced (run parse (start d t0) cs)" by (simp add: paced_run paced_start)
  moreover have "minDelay (limiter (run parse (start d t0) cs)) = d"
    by (simp add: minDelay_run start_def NewDomainRateLimiter_def)
  ultimately show ?thesis by (simp add: paced_def)
qed

lemma Wait_sleeps:
  assumes "extractDomain parse (url c) = h" "h \<noteq> []"
    and "lastRequest (limiter w) h = Some prev"
    and "clock w + int (arrive c) - prev < minDelay (limiter w)"
  shows "trace (Wait parse c w) =
           trace w @ [Sleep (minDelay (limiter w) - (clock w + int (arrive c) - prev)),
                      Store h (clock (Wait parse c w))] \<and>
         prev + minDelay (limiter w) \<le> clock (Wait parse c w)"
  using assms by (simp add: Wait_def Let_def)

text \<open>
  Claim C1.  The calls of \<open>Wait\<close> for one domain hold the domain's mutex one after
  the other, so they form a run of the model, whatever time the scheduler lets pass
  around them.  In every run of a limiter made by \<open>NewDomainRateLimiter d\<close>, the request
  times stored in \<open>lastRequest\<close> for a domain \<open>h\<close> are at least \<open>d\<close> apart, each from
  the one before.  And a call that finds less than \<open>minDelay\<close> elapsed since the
  domain's last request sleeps for the remainder, then stores its own time, which is at
  least \<open>minDelay\<close> after the last one.
\<close>

theorem Wait_spaces_requests:
  "spaced d (stored h (trace (run parse (start d t0) cs))) \<and>
   (extractDomain parse (url c) = h \<and> h \<noteq> [] \<and> lastRequest (limiter w) h = Some prev \<and>
    clock w + int (arrive c) - prev < minDelay (limiter w) \<longrightarrow>
      trace (Wait parse c w) =
        trace w @ [Sleep (minDelay (limiter w) - (clock w + int (arrive c) - prev)),
                   Store h (clock (Wait parse c w))] \<and>
      prev + minDelay (limiter w) \<le> clock (Wait parse c w))"
  using spaced_run Wait_sleeps by blast

text \<open>
  Two calls for \<open>example.com\<close> on a limiter with a delay of 10: the first stores the
  time 7; the second arrives at 10, sleeps for 7, oversleeps by 2 and stores 21.
\<close>

theorem Wait_spaces_requests_witness:
  "run sample_Parse (start 10 0)
     [\<lparr>url = ''https://example.com/a'', arrive = 5, oversleep = 0, lag = 2\<rparr>] =
     \<lparr>limiter = \<lparr>lastRequest = [''example.com'' \<mapsto> 7], mu = {''example.com''}, minDelay = 10\<rparr>,
      clock = 7, trace = [Store ''example.com'' 7]\<rparr> \<and>
   trace (Wait sample_Parse \<lparr>url = ''http://example.com/b'', arrive = 3, oversleep = 2, lag = 2\<rparr>
     \<lparr>limiter = \<lparr>lastRequest = [''example.com'' \<mapsto> 7], mu = {''example.com''}, minDelay = 10\<rparr>,
      clock = 7, trace = [Store ''example.com'' 7]\<rparr>) =
     [Store ''example.com'' 7, Sleep 7, Store ''example.com'' 21] \<and>
   spaced 10 (stored ''example.com'' (trace (run sample_Parse (start 10 0)
     [\<lparr>url = ''https://example.com/a'', arrive = 5, oversleep = 0, lag = 2\<rparr>,
      \<lparr>url = ''http://example.com/b'', arrive = 3, oversleep = 2, lag = 2\<rparr>])))"
proof -
  let ?c1 = "\<lparr>url = ''https://example.com/a'', arrive = 5, oversleep = 0, lag = 2\<rparr>"
  let ?c2 = "\<lparr>url = ''http://example.com/b'', arrive = 3, oversleep = 2, lag = 2\<rparr>"
  let ?w = "\<lparr>limiter = \<lparr>lastRequest = [''example.com'' \<mapsto> 7], mu = {''example.com''},
              minDelay = 10\<rparr>, clock = 7, trace = [Store ''example.com'' 7]\<rparr>"
  have d1: "extractDomain sample_Parse ''https://example.com/a'' = ''example.com''"
    by (simp add: extractDomain_def sample_Parse_def)
  have d2: "extractDomain sample_Parse ''http://example.com/b'' = ''example.com''"
    by (simp add: extractDomain_def sample_Parse_def)
  have r1: "Wait sample_Parse ?c1 (start 10 0) = ?w"
    by (simp add: Wait_def d1 start_def NewDomainRateLimiter_def Let_def)
  have k: "clock (Wait sample_Parse ?c2 ?w) = 21"
    by (simp add: Wait_def d2 Let_def)
  from Wait_spaces_requests[of 10 "''example.com''" sample_Parse 0 "[?c1, ?c2]" ?c2 ?w 7]
  show ?thesis by (simp add: r1 d2 k)
qed

text \<open>
  Claim C8.  A URL that \<open>url.Parse\<close> rejects, or whose host is empty, makes \<open>Wait\<close>
  return at once: the world is the one before, so nothing was slept, no \<open>lastRequest\<close>
  entry and no mutex was made.  For a URL with a host, the key of the entry and of the
  mutex is the host of the parsed URL, whatever its scheme and path are.
\<close>

theorem Wait_fails_open:
  "((\<exists>err. parse (url c) = Inl err) \<or> (\<exists>x. parse (url c) = Inr x \<and> Host x = []) \<longrightarrow>
      Wait parse c w = w) \<and>
   (parse (url c) = Inr x \<and> Host x \<noteq> [] \<longrightarrow>
      lastRequest (limiter (Wait parse c w)) =
        (lastRequest (limiter w))(Host x \<mapsto> clock (Wait parse c w)) \<and>
      mu (limiter (Wait parse c w)) = insert (Host x) (mu (limiter w)))"
  by (auto simp: Wait_def extractDomain_def Let_def split: option.split prod.split)

text \<open>
  A URL without a scheme has no host, and \<open>Wait\<close> leaves the fresh limiter as it is;
  so does a string that is no URL.  Two URLs of \<open>example.com\<close> that differ in scheme
  and path both make the entry and the mutex of \<open>example.com\<close>.
\<close>

theorem Wait_fails_open_witness:
  "sample_Parse ''example.com/a'' = Inr \<lparr>Scheme = [], Host = [], Path = ''example.com/a''\<rparr> \<and>
   Wait sample_Parse \<lparr>url = ''example.com/a'', arrive = 2, oversleep = 0, lag = 0\<rparr> (start 10 0) =
     start 10 0 \<and>
   sample_Parse ''::'' = Inl (Error ''missing protocol scheme'') \<and>
   Wait sample_Parse \<lparr>url = ''::'', arrive = 2, oversleep = 0, lag = 0\<rparr> (start 10 0) =
     start 10 0 \<and>
   mu (limiter (Wait sample_Parse
         \<lparr>url = ''https://example.com/a'', arrive = 2, oversleep = 0, lag = 0\<rparr> (start 10 0))) =
     {''example.com''} \<and>
   mu (limiter (Wait sample_Parse
         \<lparr>url = ''http://example.com/b'', arrive = 2, oversleep = 0, lag = 0\<rparr> (start 10 0))) =
     {''example.com''}"
proof -
  have p0: "sample_Parse ''example.com/a'' = Inr \<lparr>Scheme = [], Host = [], Path = ''example.com/a''\<rparr>"
    by (simp add: sample_Parse_def)
  have p1: "sample_Parse ''::'' = Inl (Error ''missing protocol scheme'')"
    by (simp add: sample_Parse_def)
  have p2: "sample_Parse ''https://example.com/a'' =
              Inr \<lparr>Scheme = ''https'', Host = ''example.com'', Path = ''/a''\<rparr>"
    by (simp add: sample_Parse_def)
  have p3: "sample_Parse ''http://example.com/b'' =
              Inr \<lparr>Scheme = ''http'', Host = ''example.com'', Path = ''/b''\<rparr>"
    by (simp add: sample_Parse_def)
  have m: "mu (limiter (start 10 0)) = {}"
    by (simp add: start_def NewDomainRateLimiter_def)
  from Wait_fails_open[of sample_Parse
         "\<lparr>url = ''example.com/a'', arrive = 2, oversleep = 0, lag = 0\<rparr>" "start 10 0"]
       Wait_fails_open[of sample_Parse
         "\<lparr>url = ''::'', arrive = 2, oversleep = 0, lag = 0\<rparr>" "start 10 0"]
       Wait_fails_open[of sample_Parse
         "\<lparr>url = ''https://example.com/a'', arrive = 2, oversleep = 0, lag = 0\<rparr>" "start 10 0"
         "\<lparr>Scheme = ''https'', Host = ''example.com'', Path = ''/a''\<rparr>"]
       Wait_fails_open[of sample_Parse
         "\<lparr>url = ''http://example.com/b'', arrive = 2, oversleep = 0, lag = 0\<rparr>" "start 10 0"
         "\<lparr>Scheme = ''http'', Host = ''example.com'', Path = ''/b''\<rparr>"]
  show ?thesis by (simp add: p0 p1 p2 p3 m)
qed

section \<open>The generic matcher\<close>

text \<open>
  Claim C2.  \<open>generic.Match\<close> returns true for every URL string.  So a search for the
  first matcher that accepts the URL, through any list of matchers that ends with the
  generic one, finds a matcher.
\<close>

theorem generic_Match_accepts_all:
  "Match_generic u \<and> List.find (\<lambda>m. m u) (ms @ [Match_generic]) \<noteq> None"
proof -
  have m: "Match_generic u" by (simp add: Match_generic_def)
  then show ?thesis by (auto simp: find_None_iff)
qed

section \<open>The Codeberg parser yields no links\<close>

lemma SocialLinks_setField: "SocialLinks (setField k v p) = SocialLinks p"
  by (simp add: setField_def)

lemma SocialLinks_nameFrom: "SocialLinks (nameFrom L pat content p) = SocialLinks p"
  by (simp add: nameFrom_def split: option.split)

lemma SocialLinks_nameFallback: "SocialLinks (nameFallback L pat content p) = SocialLinks p"
  by (simp add: nameFallback_def SocialLinks_nameFrom)

lemma SocialLinks_bioFrom: "SocialLinks (bioFrom L content p) = SocialLinks p"
  by (simp add: bioFrom_def Let_def split: option.split)

lemma SocialLinks_websiteFrom: "SocialLinks (websiteFrom L content p) = SocialLinks p"
  by (simp add: websiteFrom_def split: option.split)

lemma SocialLinks_websiteFallback: "SocialLinks (websiteFallback L content p) = SocialLinks p"
  by (simp add: websiteFallback_def split: option.split)

lemma SocialLinks_fieldFrom: "SocialLinks (fieldFrom k pat content p) = SocialLinks p"
  by (simp add: fieldFrom_def SocialLinks_setField split: option.split)

lemma SocialLinks_pronounsFrom: "SocialLinks (pronounsFrom L content p) = SocialLinks p"
  by (simp add: pronounsFrom_def Let_def SocialLinks_setField split: option.split)

text \<open>
  Claim C10.  Whatever the page and whatever the regular expressions find in it, the
  profile that the Codeberg \<open>parseHTML\<close> returns has an empty \<open>SocialLinks\<close> list.
\<close>

theorem parseHTML_codeberg_no_links:
  "SocialLinks (parseHTML_codeberg L content urlStr username) = []"
  unfolding parseHTML_codeberg_def Let_def
  by (simp only: SocialLinks_pronounsFrom SocialLinks_fieldFrom SocialLinks_websiteFallback
        SocialLinks_websiteFrom SocialLinks_bioFrom SocialLinks_nameFallback SocialLinks_nameFrom)
     (simp add: zeroProfile_def)

section \<open>The GitHub client drops GitHub links\<close>

text \<open>
  Claim C3.  Every profile that the GitHub \<open>Fetch\<close> returns without an error has a
  \<open>SocialLinks\<close> list none of whose elements satisfies the GitHub \<open>Match\<close>, whatever
  the lower-casing of the library is: \<open>Fetch\<close> and \<open>Match\<close> use the same one.
\<close>

theorem Fetch_github_drops_github_links:
  "Fetch_github L urlStr = Inr prof \<Longrightarrow>
   list_all (\<lambda>link. \<not> Match_github (gh_ToLower L) link) (SocialLinks prof)"
  unfolding Fetch_github_def Let_def
  by (auto simp: filterSamePlatformLinks_def list_all_iff split: if_splits sum.splits prod.splits)

text \<open>
  The profile of \<open>octocat\<close>: the API gives a Twitter name, the page a verified link and
  a README with two links, one of them to another GitHub profile, which is dropped.
\<close>

theorem Fetch_github_drops_github_links_witness:
  "Match_github ToLower_ascii ''https://github.com/friend'' \<and>
   (\<exists>p. Fetch_github sample_github_lib ''https://github.com/octocat'' = Inr p \<and>
        SocialLinks p = [''https://twitter.com/octo'', ''https://hachyderm.io/@octocat'',
                         ''https://example.org/me''] \<and>
        list_all (\<lambda>link. \<not> Match_github ToLower_ascii link) (SocialLinks p))"
proof -
  have lw: "gh_ToLower sample_github_lib = ToLower_ascii"
    by (simp add: sample_github_lib_def)
  have u: "extractUsername_github ''https://github.com/octocat'' = ''octocat''"
    by (simp add: extractUsername_github_def string_eval)
  have m1: "\<not> Match_github ToLower_ascii ''https://twitter.com/octo''"
    by (simp add: Match_github_def string_eval)
  have m2: "\<not> Match_github ToLower_ascii ''https://hachyderm.io/@octocat''"
    by (simp add: Match_github_def string_eval)
  have m3: "\<not> Match_github ToLower_ascii ''https://example.org/me''"
    by (simp add: Match_github_def string_eval)
  have m4: "Match_github ToLower_ascii ''https://github.com/friend''"
    by (simp add: Match_github_def string_eval profile_path_def nonProfiles_github_def Let_def)
  have api: "fetchAPI sample_github_lib ''https://github.com/octocat'' ''octocat'' =
      Inr (zeroProfile\<lparr>Platform := platform_github, URL := ''https://github.com/octocat'',
             Username := ''octocat'', Fields := [''twitter'' \<mapsto> ''https://twitter.com/octo''],
             SocialLinks := [''https://twitter.com/octo'']\<rparr>)"
    by (simp add: fetchAPI_def sample_github_lib_def sample_Request_def Header_Set_def parseJSON_def
        zero_ghUser_def addType_def addAvatar_def addStats_def addTwitter_def addCompany_def
        addEmail_def addBlog_def setField_def zeroProfile_def Let_def)
  have html: "fetchHTML sample_github_lib ''https://github.com/octocat'' =
      (octocat_html, [''https://hachyderm.io/@octocat''])"
    by (simp add: fetchHTML_def sample_github_lib_def sample_Request_def Header_Set_def
        extractSocialLinks_def relMe_links_def string_eval Let_def)
  have ne: "octocat_html \<noteq> []" "octocat_readme \<noteq> []"
    by (simp_all add: octocat_html_def octocat_readme_def)
  have d: "dedupeLinks ToLower_ascii
            [''https://twitter.com/octo'', ''https://hachyderm.io/@octocat'',
             ''https://github.com/friend'', ''https://example.org/me''] =
           [''https://twitter.com/octo'', ''https://hachyderm.io/@octocat'',
             ''https://github.com/friend'', ''https://example.org/me'']"
    by (simp add: dedupeLinks_def normalize_def string_eval)
  have f: "filterSamePlatformLinks ToLower_ascii
            [''https://twitter.com/octo'', ''https://hachyderm.io/@octocat'',
             ''https://github.com/friend'', ''https://example.org/me''] =
           [''https://twitter.com/octo'', ''https://hachyderm.io/@octocat'',
            ''https://example.org/me'']"
    by (simp add: filterSamePlatformLinks_def m1 m2 m3 m4)
  have p: "profileURL ''https://github.com/'' ''https://github.com/octocat'' ''octocat'' =
             ''https://github.com/octocat''"
    by (simp add: profileURL_def string_eval)
  have orgs: "extractOrganizations sample_github_lib octocat_html = []"
    by (simp add: extractOrganizations_def sample_github_lib_def)
  have readme: "extractREADMEHTML sample_github_lib octocat_html = octocat_readme"
    by (simp add: extractREADMEHTML_def sample_github_lib_def ne)
  have sl: "gh_SocialLinks sample_github_lib octocat_readme =
              [''https://github.com/friend'', ''https://example.org/me'']"
    by (simp add: sample_github_lib_def)
  have ev: "\<exists>p. Fetch_github sample_github_lib ''https://github.com/octocat'' = Inr p \<and>
       SocialLinks p = [''https://twitter.com/octo'', ''https://hachyderm.io/@octocat'',
                        ''https://example.org/me'']"
    unfolding Fetch_github_def u p Let_def api html
    by (simp add: ne d f orgs readme sl lw)
  then obtain p where
    p1: "Fetch_github sample_github_lib ''https://github.com/octocat'' = Inr p" and
    p2: "SocialLinks p = [''https://twitter.com/octo'', ''https://hachyderm.io/@octocat'',
                          ''https://example.org/me'']"
    by blast
  from Fetch_github_drops_github_links[OF p1]
  have "list_all (\<lambda>link. \<not> Match_github ToLower_ascii link) (SocialLinks p)"
    by (simp only: lw)
  with p1 p2 m4 show ?thesis by blast
qed

section \<open>The key of a link\<close>

lemma dedupe_loop_result:
  "dedupe_loop lw seen result links = result @ dedupe_loop lw seen [] links"
proof (induction links arbitrary: seen result)
  case Nil
  show ?case by simp
next
  case (Cons l ls)
  show ?case
  proof (cases "normalize lw l \<in> seen")
    case True
    then show ?thesis using Cons.IH[of seen result] by simp
  next
    case False
    have "dedupe_loop lw (insert (normalize lw l) seen) (result @ [l]) ls =
          (result @ [l]) @ dedupe_loop lw (insert (normalize lw l) seen) [] ls"
      by (rule Cons.IH)
    moreover have "dedupe_loop lw (insert (normalize lw l) seen) [l] ls =
          [l] @ dedupe_loop lw (insert (normalize lw l) seen) [] ls"
      by (rule Cons.IH)
    ultimately show ?thesis using False by simp
  qed
qed

lemma dedupe_loop_Cons:
  "dedupe_loop lw seen [] (l # ls) =
     (if normalize lw l \<in> seen then dedupe_loop lw seen [] ls
      else l # dedupe_loop lw (insert (normalize lw l) seen) [] ls)"
  using dedupe_loop_result[of lw "insert (normalize lw l) seen" "[l]" ls] by simp

text \<open>The links that the loop keeps have keys that are new and differ from each other.\<close>

lemma dedupe_loop_keys:
  "normalize lw ` set (dedupe_loop lw seen [] xs) \<inter> seen = {} \<and>
   distinct (map (normalize lw) (dedupe_loop lw seen [] xs))"
proof (induction xs arbitrary: seen)
  case Nil
  show ?case by simp
next
  case (Cons l ls)
  show ?case
    using Cons.IH[of seen] Cons.IH[of "insert (normalize lw l) seen"]
    by (auto simp: dedupe_loop_Cons simp del: dedupe_loop.simps)
qed

lemma dedupe_loop_fix:
  "distinct (map (normalize lw) xs) \<Longrightarrow> normalize lw ` set xs \<inter> seen = {} \<Longrightarrow>
   dedupe_loop lw seen [] xs = xs"
proof (induction xs arbitrary: seen)
  case Nil
  show ?case by simp
next
  case (Cons l ls)
  then show ?case
    by (auto simp: dedupe_loop_Cons simp del: dedupe_loop.simps)
qed

lemma dedupeLinks_idem: "dedupeLinks lw (dedupeLinks lw xs) = dedupeLinks lw xs"
  unfolding dedupeLinks_def
  using dedupe_loop_keys[of lw "{}" xs] by (intro dedupe_loop_fix) auto

text \<open>
  The key is stable under the two facts of \<open>strings.ToLower\<close> that the proof names: a
  lower-case string is its own lower case, and a slash at the end stays at the end.
\<close>

lemma normalize_idem:
  assumes idem: "\<forall>s. lw (lw s) = lw s"
    and slash: "\<forall>s. lw (s @ ''/'') = lw s @ ''/''"
    and two: "\<not> HasSuffix (lw u) ''//''"
  shows "normalize lw (normalize lw u) = normalize lw u"
proof (cases "HasSuffix (lw u) ''/''")
  case True
  then obtain t where t: "lw u = t @ ''/''" by (auto simp: HasSuffix_def suffix_def)
  have n: "normalize lw u = t" using True by (simp add: normalize_def TrimSuffix_def t)
  from idem have "lw (lw u) = lw u" by blast
  then have "lw (t @ ''/'') = t @ ''/''" by (simp only: t)
  moreover from slash have "lw (t @ ''/'') = lw t @ ''/''" by blast
  ultimately have lt: "lw t = t" by simp
  have "\<not> HasSuffix t ''/''"
  proof
    assume "HasSuffix t ''/''"
    then obtain r where "t = r @ ''/''" by (auto simp: HasSuffix_def suffix_def)
    then have "lw u = r @ ''//''" by (simp add: t)
    with two show False by (simp add: HasSuffix_def suffix_def)
  qed
  then have "normalize lw t = t" by (simp add: normalize_def TrimSuffix_def lt)
  then show ?thesis by (simp only: n)
next
  case False
  then have n: "normalize lw u = lw u" by (simp add: normalize_def TrimSuffix_def)
  from idem have "lw (lw u) = lw u" by blast
  then have "normalize lw (lw u) = lw u"
    using False by (simp add: normalize_def TrimSuffix_def)
  then show ?thesis by (simp only: n)
qed

text \<open>
  A URL of plain bytes that ends in two slashes loses one slash each time, under every
  lower-casing that keeps plain bytes.
\<close>

lemma normalize_two_slashes:
  assumes "keeps_ascii lw"
  shows "normalize lw ''https://example.com//'' = ''https://example.com/'' \<and>
         normalize lw ''https://example.com/'' = ''https://example.com''"
proof -
  have p2: "list_all plain_byte ''https://example.com//''" by (simp add: plain_byte_def)
  have p1: "list_all plain_byte ''https://example.com/''" by (simp add: plain_byte_def)
  have l2: "lw ''https://example.com//'' = ''https://example.com//''"
    by (rule keeps_ascii_fix[OF assms p2])
  have l1: "lw ''https://example.com/'' = ''https://example.com/''"
    by (rule keeps_ascii_fix[OF assms p1])
  show ?thesis
    unfolding normalize_def l1 l2 by (simp add: TrimSuffix_def HasSuffix_def suffix_to_prefix)
qed

text \<open>
  Claim C4, as stated: the key of a link (the link in lower case without one trailing
  slash) is the same when computed twice.  It is not for a link that ends in two
  slashes: one slash goes each time.  The link below is made of ASCII bytes, on which
  \<open>strings.ToLower\<close> is \<open>ToLower_ascii\<close>.
\<close>

theorem normalize_not_idempotent:
  "normalize ToLower_ascii (normalize ToLower_ascii ''https://example.com//'') \<noteq>
   normalize ToLower_ascii ''https://example.com//''"
  by (simp add: normalize_def string_eval)

text \<open>
  Claim C4, amended.  Let \<open>strings.ToLower\<close> leave a lower-case string as it is and
  keep a slash at the end of a string at the end.  Then the key of a link whose
  lower-case form does not end in two slashes is the same when computed twice.  And,
  whatever \<open>strings.ToLower\<close> does, \<open>dedupeLinks\<close> applied twice yields the list that
  it yields applied once, for every list of links.
\<close>

theorem normalize_idempotent_single_slash:
  "((\<forall>s. toLower (toLower s) = toLower s) \<and>
    (\<forall>s. toLower (s @ ''/'') = toLower s @ ''/'') \<and>
    \<not> HasSuffix (toLower u) ''//'' \<longrightarrow>
      normalize toLower (normalize toLower u) = normalize toLower u) \<and>
   dedupeLinks toLower (dedupeLinks toLower links) = dedupeLinks toLower links"
  using normalize_idem[of toLower u] dedupeLinks_idem[of toLower links] by blast

theorem normalize_idempotent_single_slash_witness:
  "(\<forall>s. ToLower_ascii (ToLower_ascii s) = ToLower_ascii s) \<and>
   (\<forall>s. ToLower_ascii (s @ ''/'') = ToLower_ascii s @ ''/'') \<and>
   \<not> HasSuffix (ToLower_ascii ''https://Example.com/'') ''//'' \<and>
   normalize ToLower_ascii ''https://Example.com/'' = ''https://example.com'' \<and>
   normalize ToLower_ascii (normalize ToLower_ascii ''https://Example.com/'') =
     normalize ToLower_ascii ''https://Example.com/'' \<and>
   dedupeLinks ToLower_ascii (dedupeLinks ToLower_ascii
       [''https://Example.com/'', ''https://example.com'', ''https://example.org'']) =
     dedupeLinks ToLower_ascii
       [''https://Example.com/'', ''https://example.com'', ''https://example.org'']"
proof -
  have i: "\<forall>s. ToLower_ascii (ToLower_ascii s) = ToLower_ascii s"
    by (simp add: ToLower_ascii_idem)
  have sl: "\<forall>s. ToLower_ascii (s @ ''/'') = ToLower_ascii s @ ''/''"
    by (simp add: ToLower_ascii_def lower_byte_def)
  have h: "\<not> HasSuffix (ToLower_ascii ''https://Example.com/'') ''//''"
    by code_simp
  have n: "normalize ToLower_ascii ''https://Example.com/'' = ''https://example.com''"
    by code_simp
  from normalize_idempotent_single_slash[of ToLower_ascii "''https://Example.com/''"
         "[''https://Example.com/'', ''https://example.com'', ''https://example.org'']"] i sl h n
  show ?thesis by simp
qed

section \<open>The Codeberg client and its cache\<close>

lemma Fetch_codeberg_hit:
  assumes "extractUsername_codeberg u = username" "username \<noteq> []"
    and "cb_cache c = Some ch"
    and "Get ch (profileURL ''https://codeberg.org/'' u username) = (data, etag, hdrs, True)"
  shows "Fetch_codeberg L c u =
           (Inr (parseHTML_codeberg L data (profileURL ''https://codeberg.org/'' u username) username),
            [LogInfo ''fetching codeberg profile'',
             CacheGet (profileURL ''https://codeberg.org/'' u username)])"
  using assms by (simp add: Fetch_codeberg_def Let_def)

lemma Fetch_codeberg_miss:
  assumes "extractUsername_codeberg u = username" "username \<noteq> []"
    and "cb_cache c = Some ch"
    and "Get ch (profileURL ''https://codeberg.org/'' u username) = (data, etag, hdrs, False)"
  shows "Fetch_codeberg L c u =
           fetch_network L c (profileURL ''https://codeberg.org/'' u username) username
            [LogInfo ''fetching codeberg profile'',
             CacheGet (profileURL ''https://codeberg.org/'' u username)]"
  using assms by (simp add: Fetch_codeberg_def Let_def)

lemma Fetch_codeberg_nocache:
  assumes "extractUsername_codeberg u = username" "username \<noteq> []"
    and "cb_cache c = None"
  shows "Fetch_codeberg L c u =
           fetch_network L c (profileURL ''https://codeberg.org/'' u username) username
            [LogInfo ''fetching codeberg profile'']"
  using assms by (simp add: Fetch_codeberg_def Let_def)

text \<open>The result of the network part depends on the client through \<open>Do\<close> only.\<close>

lemma fetch_network_result:
  "cb_Do c = cb_Do c' \<Longrightarrow>
   fst (fetch_network L c url' username effs) = fst (fetch_network L c' url' username effs')"
  by (simp add: fetch_network_def Let_def split: sum.split)

lemma fetch_network_http:
  "cb_NewRequest L url' = Inr req \<Longrightarrow>
   HTTPDo (Header_Set ''User-Agent'' browser_agent req) \<in>
     set (snd (fetch_network L c url' username effs))"
  by (simp add: fetch_network_def Let_def split: sum.split option.split)

lemma ev_user_jane: "extractUsername_codeberg ''https://codeberg.org/jane'' = ''jane''"
  by (simp add: extractUsername_codeberg_def string_eval)

lemma ev_user_cached: "extractUsername_codeberg ''https://codeberg.org/cached'' = ''cached''"
  by (simp add: extractUsername_codeberg_def string_eval)

lemma ev_url_jane:
  "profileURL ''https://codeberg.org/'' ''https://codeberg.org/jane'' ''jane'' =
     ''https://codeberg.org/jane''"
  by (simp add: profileURL_def string_eval)

lemma ev_url_cached:
  "profileURL ''https://codeberg.org/'' ''https://codeberg.org/cached'' ''cached'' =
     ''https://codeberg.org/cached''"
  by (simp add: profileURL_def string_eval)

lemma ev_request_jane:
  "cb_NewRequest sample_codeberg_lib ''https://codeberg.org/jane'' =
     Inr \<lparr>reqURL = ''https://codeberg.org/jane'', reqHeader = []\<rparr>"
  by (simp add: sample_codeberg_lib_def sample_Request_def)

lemma ev_miss_jane: "Get sample_cache ''https://codeberg.org/jane'' = ([], [], [], False)"
  by (simp add: sample_cache_def)

text \<open>
  Claim C5.  A fetch that reaches the network and reads the body of a 200 response
  returns the profile parsed from that body and no error, whatever \<open>SetAsync\<close> of the
  cache is: the write is made and what it returns is dropped.
\<close>

theorem Fetch_codeberg_ignores_SetAsync:
  assumes "extractUsername_codeberg u = username" "username \<noteq> []"
    and "profileURL ''https://codeberg.org/'' u username = url'"
    and "Get ch url' = (data, etag, hdrs, False)"
    and "cb_NewRequest L url' = Inr req"
    and "cb_Do c (Header_Set ''User-Agent'' browser_agent req) = Inr resp"
    and "StatusCode resp = 200"
    and "ReadAllLimit (2 ^ 20) (Body resp) = Inr body"
  shows "Fetch_codeberg L (c\<lparr>cb_cache := Some (ch\<lparr>SetAsync := sa\<rparr>)\<rparr>) u =
           (Inr (parseHTML_codeberg L body url' username),
            [LogInfo ''fetching codeberg profile'', CacheGet url',
             HTTPDo (Header_Set ''User-Agent'' browser_agent req), CacheSetAsync url' body])"
proof -
  let ?c = "c\<lparr>cb_cache := Some (ch\<lparr>SetAsync := sa\<rparr>)\<rparr>"
  have "Fetch_codeberg L ?c u =
          fetch_network L ?c url' username [LogInfo ''fetching codeberg profile'', CacheGet url']"
    using Fetch_codeberg_miss[of u username ?c "ch\<lparr>SetAsync := sa\<rparr>" data etag hdrs L]
      assms(1-4)
    by simp
  also have "\<dots> = (Inr (parseHTML_codeberg L body url' username),
            [LogInfo ''fetching codeberg profile'', CacheGet url',
             HTTPDo (Header_Set ''User-Agent'' browser_agent req), CacheSetAsync url' body])"
    using assms(5-8) by (simp add: fetch_network_def Let_def)
  finally show ?thesis .
qed

text \<open>
  The page of \<open>jane\<close> is not in the sample cache and every write to that cache fails;
  the fetch returns the profile parsed from the page.
\<close>

theorem Fetch_codeberg_ignores_SetAsync_witness:
  "SetAsync sample_cache ''https://codeberg.org/jane'' jane_html [] [] =
     Some (Error ''cache write failed'') \<and>
   Fetch_codeberg sample_codeberg_lib sample_client ''https://codeberg.org/jane'' =
     (Inr (parseHTML_codeberg sample_codeberg_lib jane_html ''https://codeberg.org/jane'' ''jane''),
      [LogInfo ''fetching codeberg profile'', CacheGet ''https://codeberg.org/jane'',
       HTTPDo \<lparr>reqURL = ''https://codeberg.org/jane'',
               reqHeader = [(''User-Agent'', browser_agent)]\<rparr>,
       CacheSetAsync ''https://codeberg.org/jane'' jane_html])"
proof -
  have c: "sample_client\<lparr>cb_cache := Some sample_cache\<rparr> = sample_client"
    by (simp add: sample_client_def)
  have d: "cb_Do sample_client (Header_Set ''User-Agent'' browser_agent
             \<lparr>reqURL = ''https://codeberg.org/jane'', reqHeader = []\<rparr>) =
           Inr \<lparr>StatusCode = 200, Body = (jane_html, None)\<rparr>"
    by (simp add: sample_client_def Header_Set_def)
  have b: "ReadAllLimit (2 ^ 20) (Body \<lparr>StatusCode = 200, Body = (jane_html, None)\<rparr>) =
             Inr jane_html"
    by (simp add: ReadAllLimit_def jane_html_def)
  have s: "SetAsync sample_cache ''https://codeberg.org/jane'' jane_html [] [] =
             Some (Error ''cache write failed'')"
    by (simp add: sample_cache_def)
  from Fetch_codeberg_ignores_SetAsync[OF ev_user_jane _ ev_url_jane ev_miss_jane
         ev_request_jane d _ b, of "SetAsync sample_cache"] s
  show ?thesis by (simp add: c Header_Set_def)
qed

text \<open>
  Claim C6.  For a URL with a username and a client with a cache: when \<open>Get\<close> reports
  \<open>found\<close> for the profile URL, \<open>Fetch\<close> returns the profile parsed from the cached
  bytes and no error, and all it did was to log and to read the cache (no HTTP request).
  When \<open>Get\<close> reports a miss, \<open>Fetch\<close> returns what a client without a cache returns,
  and the HTTP request is made as soon as it can be built.
\<close>

theorem Fetch_codeberg_cache_hit:
  assumes "extractUsername_codeberg u = username" "username \<noteq> []"
    and "profileURL ''https://codeberg.org/'' u username = url'"
    and "cb_cache c = Some ch"
    and "Get ch url' = (data, etag, hdrs, found)"
  shows "if found
         then Fetch_codeberg L c u =
                (Inr (parseHTML_codeberg L data url' username),
                 [LogInfo ''fetching codeberg profile'', CacheGet url']) \<and>
              \<not> list_ex is_http (snd (Fetch_codeberg L c u))
         else fst (Fetch_codeberg L c u) = fst (Fetch_codeberg L (c\<lparr>cb_cache := None\<rparr>) u) \<and>
              (\<forall>req. cb_NewRequest L url' = Inr req \<longrightarrow>
                 HTTPDo (Header_Set ''User-Agent'' browser_agent req) \<in>
                   set (snd (Fetch_codeberg L c u)))"
proof (cases found)
  case True
  then show ?thesis
    using Fetch_codeberg_hit[of u username c ch data etag hdrs L] assms by simp
next
  case False
  have m: "Fetch_codeberg L c u =
          fetch_network L c url' username [LogInfo ''fetching codeberg profile'', CacheGet url']"
    using Fetch_codeberg_miss[of u username c ch data etag hdrs L] assms False by simp
  have n: "Fetch_codeberg L (c\<lparr>cb_cache := None\<rparr>) u =
          fetch_network L (c\<lparr>cb_cache := None\<rparr>) url' username
            [LogInfo ''fetching codeberg profile'']"
    using Fetch_codeberg_nocache[of u username "c\<lparr>cb_cache := None\<rparr>" L] assms by simp
  have "fst (Fetch_codeberg L c u) = fst (Fetch_codeberg L (c\<lparr>cb_cache := None\<rparr>) u)"
    unfolding m n by (rule fetch_network_result) simp
  moreover have "\<forall>req. cb_NewRequest L url' = Inr req \<longrightarrow>
                 HTTPDo (Header_Set ''User-Agent'' browser_agent req) \<in>
                   set (snd (Fetch_codeberg L c u))"
    unfolding m using fetch_network_http by blast
  ultimately show ?thesis using False by simp
qed

text \<open>
  The sample cache holds the page of \<open>cached\<close>: it is parsed without a request.  It
  does not hold the page of \<open>jane\<close>: the request is made.
\<close>

theorem Fetch_codeberg_cache_hit_witness:
  "Fetch_codeberg sample_codeberg_lib sample_client ''https://codeberg.org/cached'' =
     (Inr (parseHTML_codeberg sample_codeberg_lib jane_html ''https://codeberg.org/cached''
            ''cached''),
      [LogInfo ''fetching codeberg profile'', CacheGet ''https://codeberg.org/cached'']) \<and>
   fst (Fetch_codeberg sample_codeberg_lib sample_client ''https://codeberg.org/jane'') =
     fst (Fetch_codeberg sample_codeberg_lib (sample_client\<lparr>cb_cache := None\<rparr>)
            ''https://codeberg.org/jane'') \<and>
   HTTPDo \<lparr>reqURL = ''https://codeberg.org/jane'',
           reqHeader = [(''User-Agent'', browser_agent)]\<rparr> \<in>
     set (snd (Fetch_codeberg sample_codeberg_lib sample_client ''https://codeberg.org/jane''))"
proof -
  have c: "cb_cache sample_client = Some sample_cache"
    by (simp add: sample_client_def)
  have g: "Get sample_cache ''https://codeberg.org/cached'' = (jane_html, [], [], True)"
    by (simp add: sample_cache_def)
  from Fetch_codeberg_cache_hit[OF ev_user_cached _ ev_url_cached c g, of sample_codeberg_lib]
       Fetch_codeberg_cache_hit[OF ev_user_jane _ ev_url_jane c ev_miss_jane,
         of sample_codeberg_lib]
  show ?thesis by (simp add: ev_request_jane Header_Set_def)
qed

section \<open>The fields of a GitHub profile\<close>

text \<open>
  Claim C7.  \<open>parseJSON\<close> tests the company for emptiness before it removes the
  \<open>@\<close> in front of it: for an account whose company is \<open>@\<close>, the profile has the
  platform \<open>github\<close> and a field \<open>company\<close> whose value is the empty string.
\<close>

theorem parseJSON_empty_company:
  "\<exists>p. parseJSON sample_github_lib acme_json ''https://github.com/acme'' ''acme'' = Inr p \<and>
       Platform p = ''github'' \<and> Fields p ''company'' = Some []"
  by (simp add: parseJSON_def sample_github_lib_def acme_json_def octocat_json_def zero_ghUser_def
      addType_def addAvatar_def addStats_def addTwitter_def addCompany_def addEmail_def addBlog_def
      setField_def zeroProfile_def platform_github_def TrimPrefix_def HasPrefix_def Let_def)

section \<open>The generic client refuses internal targets\<close>

lemma localHost_lower:
  assumes k: "keeps_ascii toLower" and "localHost host"
  shows "localHost (toLower host)"
proof -
  have l1: "list_all plain_byte ''.local''" by (simp add: plain_byte_def)
  have l2: "list_all plain_byte ''.internal''" by (simp add: plain_byte_def)
  have l3: "list_all plain_byte ''localhost''" by (simp add: plain_byte_def)
  have l4: "list_all plain_byte ''127.0.0.1''" by (simp add: plain_byte_def)
  have l5: "list_all plain_byte ''::1''" by (simp add: plain_byte_def)
  from assms(2) show ?thesis
    unfolding localHost_def
    apply (elim disjE)
        apply (drule keeps_ascii_eq[OF k l3], rule disjI1, assumption)
       apply (drule keeps_ascii_eq[OF k l4], rule disjI2, rule disjI1, assumption)
      apply (drule keeps_ascii_eq[OF k l5], rule disjI2, rule disjI2, rule disjI1, assumption)
     apply (drule keeps_ascii_suffix[OF k l1], rule disjI2, rule disjI2, rule disjI2, rule disjI1,
        assumption)
    apply (drule keeps_ascii_suffix[OF k l2], rule disjI2, rule disjI2, rule disjI2, rule disjI2,
        assumption)
    done
qed

lemma metadataService_lower:
  assumes k: "keeps_ascii toLower" and "metadataService host"
  shows "metadataService (toLower host)"
proof -
  have l6: "list_all plain_byte ''169.254.169.254''" by (simp add: plain_byte_def)
  have l7: "list_all plain_byte ''metadata.google.internal''" by (simp add: plain_byte_def)
  have l8: "list_all plain_byte ''metadata.azure.com''" by (simp add: plain_byte_def)
  from assms(2) show ?thesis
    unfolding metadataService_def
    apply (elim disjE)
      apply (drule keeps_ascii_eq[OF k l6], rule disjI1, assumption)
     apply (drule keeps_ascii_eq[OF k l7], rule disjI2, rule disjI1, assumption)
    apply (drule keeps_ascii_eq[OF k l8], rule disjI2, rule disjI2, assumption)
    done
qed

lemma validateURL_blocks:
  "gen_Parse L u = Inr parsed \<Longrightarrow>
   localHost (gen_ToLower L (gen_Hostname L parsed)) \<or>
   privateIP L (gen_ToLower L (gen_Hostname L parsed)) \<or>
   metadataService (gen_ToLower L (gen_Hostname L parsed)) \<Longrightarrow>
   \<exists>msg. validateURL L u = Some (Error msg)"
  by (auto simp: validateURL_def Let_def)

lemma Fetch_generic_blocked:
  "validateURL L (withScheme urlStr) = Some err \<Longrightarrow> Fetch_generic L urlStr = (Inl err, [])"
  unfolding Fetch_generic_def Let_def by simp

text \<open>
  Claim C9.  Let \<open>strings.ToLower\<close> keep plain bytes.  Let the URL that \<open>Fetch\<close> goes
  on with parse, and let its host name be \<open>localhost\<close>, \<open>127.0.0.1\<close> or \<open>::1\<close>, or
  end in \<open>.local\<close> or \<open>.internal\<close>, or be (in lower case, as \<open>Fetch\<close> hands it to
  \<open>net.ParseIP\<close>) a loopback, private or link-local address, or be one of the three
  metadata hosts.  Then \<open>Fetch\<close> returns an error and has done nothing before: no
  request was built and none was sent.
\<close>

theorem Fetch_generic_refuses_internal:
  assumes "keeps_ascii (gen_ToLower L)"
    and "gen_Parse L (withScheme urlStr) = Inr parsed"
    and "gen_Hostname L parsed = host"
    and "localHost host \<or> privateIP L (gen_ToLower L host) \<or> metadataService host"
  shows "\<exists>msg. Fetch_generic L urlStr = (Inl (Error msg), [])"
proof -
  from assms(4) have "localHost (gen_ToLower L host) \<or> privateIP L (gen_ToLower L host) \<or>
      metadataService (gen_ToLower L host)"
    using localHost_lower[OF assms(1)] metadataService_lower[OF assms(1)] by blast
  with assms(2,3) obtain msg where "validateURL L (withScheme urlStr) = Some (Error msg)"
    using validateURL_blocks[of L "withScheme urlStr" parsed] by auto
  then show ?thesis
    using Fetch_generic_blocked by blast
qed

text \<open>
  The sample library lower-cases with \<open>ToLower_ascii\<close>, which keeps plain bytes.  It
  refuses \<open>localhost\<close>, given without a scheme, and the private address \<open>10.0.0.1\<close>.
\<close>

theorem Fetch_generic_refuses_internal_witness:
  "keeps_ascii (gen_ToLower sample_generic_lib) \<and>
   withScheme ''localhost'' = ''https://localhost'' \<and>
   localHost ''localhost'' \<and>
   privateIP sample_generic_lib ''10.0.0.1'' \<and>
   (\<exists>msg. Fetch_generic sample_generic_lib ''localhost'' = (Inl (Error msg), [])) \<and>
   (\<exists>msg. Fetch_generic sample_generic_lib ''https://10.0.0.1'' = (Inl (Error msg), []))"
proof -
  have lw: "gen_ToLower sample_generic_lib = ToLower_ascii"
    by (simp add: sample_generic_lib_def)
  have k: "keeps_ascii (gen_ToLower sample_generic_lib)"
    by (simp only: lw keeps_ascii_ToLower_ascii)
  have w1: "withScheme ''localhost'' = ''https://localhost''"
    by (simp add: withScheme_def string_eval)
  have w2: "withScheme ''https://10.0.0.1'' = ''https://10.0.0.1''"
    by (simp add: withScheme_def string_eval)
  have p1: "gen_Parse sample_generic_lib (withScheme ''localhost'') =
              Inr \<lparr>Scheme = ''https'', Host = ''localhost'', Path = []\<rparr>"
    by (simp add: w1 sample_generic_lib_def sample_Parse_def)
  have p2: "gen_Parse sample_generic_lib (withScheme ''https://10.0.0.1'') =
              Inr \<lparr>Scheme = ''https'', Host = ''10.0.0.1'', Path = []\<rparr>"
    by (simp add: w2 sample_generic_lib_def sample_Parse_def)
  have h1: "gen_Hostname sample_generic_lib \<lparr>Scheme = ''https'', Host = ''localhost'', Path = []\<rparr> =
              ''localhost''"
    by (simp add: sample_generic_lib_def)
  have h2: "gen_Hostname sample_generic_lib \<lparr>Scheme = ''https'', Host = ''10.0.0.1'', Path = []\<rparr> =
              ''10.0.0.1''"
    by (simp add: sample_generic_lib_def)
  have a: "localHost ''localhost''"
    by (simp add: localHost_def)
  have b: "privateIP sample_generic_lib ''10.0.0.1''"
    by (simp add: privateIP_def sample_generic_lib_def)
  have l: "gen_ToLower sample_generic_lib ''10.0.0.1'' = ''10.0.0.1''"
    by (simp add: lw ToLower_ascii_def lower_byte_def)
  have b': "privateIP sample_generic_lib (gen_ToLower sample_generic_lib ''10.0.0.1'')"
    using b by (simp only: l)
  from Fetch_generic_refuses_internal[OF k p1 h1] a
       Fetch_generic_refuses_internal[OF k p2 h2] b' w1 b k
  show ?thesis by blast
qed

end
